theory Spec2Isabelle
  imports
    Complex_Main
    "HOL-Library.Multiset"
    "HOL-Library.Char_ord"
    "HOL-Library.List_Lexorder"
    "HOL-Library.Product_Lexorder"
begin

section \<open>Data model\<close>

text \<open>
  The API of \<^verbatim>\<open>apps/api\<close> stores users, projects, tasks, labels and comments through
  Prisma. Identifiers are UUID strings, dates are instants (milliseconds since the epoch).
  The three enumerations are the ones of \<^verbatim>\<open>packages/ui/src/index.ts\<close> and of the zod
  schemas of the routes.
\<close>

type_synonym uuid = string
type_synonym date = int

datatype UserRole = ADMIN | MANAGER | MEMBER
datatype TaskStatus = BACKLOG | IN_PROGRESS | DONE
datatype TaskPriority = LOW | MEDIUM | HIGH | URGENT

text \<open>\<^verbatim>\<open>JWTPayload\<close> of \<^verbatim>\<open>lib/auth.ts\<close>: what \<^verbatim>\<open>req.user\<close> holds after authentication.\<close>

record JWTPayload =
  userId :: uuid
  email :: string
  role :: UserRole

record user =
  user_id :: uuid
  user_email :: string
  user_name :: string
  user_role :: UserRole

record project =
  project_id :: uuid
  project_name :: string
  project_description :: "string option"
  project_ownerId :: uuid
  project_createdAt :: date

text \<open>
  A task row together with its \<^verbatim>\<open>TaskLabel\<close> join rows (\<open>task_labels\<close>: the label ids
  attached to the task).
\<close>

record task =
  task_id :: uuid
  task_title :: string
  task_description :: "string option"
  task_status :: TaskStatus
  task_priority :: TaskPriority
  task_dueDate :: "date option"
  task_assigneeId :: "uuid option"
  task_projectId :: uuid
  task_labels :: "uuid list"
  task_createdAt :: date
  task_updatedAt :: date

record label =
  label_id :: uuid
  label_name :: string
  label_color :: string
  label_projectId :: uuid

record comment =
  comment_id :: uuid
  comment_content :: string
  comment_taskId :: uuid
  comment_authorId :: uuid
  comment_createdAt :: date
  comment_updatedAt :: date

text \<open>The database: one list of rows per table, in insertion order.\<close>

record db =
  users :: "user list"
  projects :: "project list"
  tasks :: "task list"
  labels :: "label list"
  comments :: "comment list"

text \<open>
  The outcomes a handler answers with besides success: 401, 403, 404, 400 and 500. A
  route returns \<open>Inl\<close> of one of them or \<open>Inr\<close> of the response body, paired with
  the database after the request.
\<close>

datatype error = Unauthorized | Forbidden | NotFound | ValidationError | InternalServerError

section \<open>Storage collaborator\<close>

text \<open>\<^verbatim>\<open>prisma.X.findUnique({ where: { id } })\<close>: the row with that id, or null.\<close>

definition findUnique :: "('a \<Rightarrow> uuid) \<Rightarrow> uuid \<Rightarrow> 'a list \<Rightarrow> 'a option" where
  "findUnique key i rows = find (\<lambda>r. key r = i) rows"

text \<open>
  \<^verbatim>\<open>{ contains: s, mode: 'insensitive' }\<close>: the text has \<open>s\<close> as a substring, letter
  case ignored (ASCII letters are folded to lower case).
\<close>

definition toLower :: "char \<Rightarrow> char" where
  "toLower c =
     (if CHR ''A'' \<le> c \<and> c \<le> CHR ''Z'' then char_of (of_char c + (32::nat)) else c)"

fun startsWith :: "string \<Rightarrow> string \<Rightarrow> bool" where
  "startsWith hay [] = True"
| "startsWith [] (c # cs) = False"
| "startsWith (h # hs) (c # cs) = (h = c \<and> startsWith hs cs)"

fun substring :: "string \<Rightarrow> string \<Rightarrow> bool" where
  "substring [] s = (s = [])"
| "substring (h # hs) s = (startsWith (h # hs) s \<or> substring hs s)"

definition contains_insensitive :: "string \<Rightarrow> string \<Rightarrow> bool" where
  "contains_insensitive text s = substring (map toLower text) (map toLower s)"

section \<open>Middleware (\<^verbatim>\<open>middleware/auth.ts\<close>)\<close>

text \<open>
  \<^verbatim>\<open>authenticateToken\<close>. Token verification (\<^verbatim>\<open>verifyAccessToken\<close>) is the JWT
  library's: its outcome is the argument, \<open>None\<close> for a missing, invalid or expired token.
  The middleware then checks that the user still exists and sets \<^verbatim>\<open>req.user\<close> to the
  payload; otherwise it answers 401.
\<close>

definition authenticateToken :: "JWTPayload option \<Rightarrow> db \<Rightarrow> error + JWTPayload" where
  "authenticateToken token d =
     (case token of
        None \<Rightarrow> Inl Unauthorized
      | Some payload \<Rightarrow>
          (case findUnique user_id (userId payload) (users d) of
             None \<Rightarrow> Inl Unauthorized
           | Some u \<Rightarrow> Inr payload))"

text \<open>\<^verbatim>\<open>requireRole(roles)\<close>: passes when \<^verbatim>\<open>roles.includes(req.user.role)\<close>, else 403.\<close>

definition requireRole :: "UserRole list \<Rightarrow> JWTPayload \<Rightarrow> bool" where
  "requireRole roles u = List.member roles (role u)"

section \<open>Comments (\<^verbatim>\<open>routes/comments.ts\<close>)\<close>

record create_comment_body =
  cc_content :: string
  cc_taskId :: uuid

text \<open>\<^verbatim>\<open>createCommentSchema\<close> and \<^verbatim>\<open>updateCommentSchema\<close>: \<^verbatim>\<open>content: z.string().min(1)\<close>.\<close>

definition createCommentSchema :: "create_comment_body \<Rightarrow> bool" where
  "createCommentSchema body = (cc_content body \<noteq> [])"

definition updateCommentSchema :: "string \<Rightarrow> bool" where
  "updateCommentSchema content = (content \<noteq> [])"

text \<open>
  Modelled from the spec: the Prisma schema is not among the sources. Section 3 of the
  specification makes the parent Task of a Comment a required reference, so the storage
  refuses a comment whose \<open>taskId\<close> names no task, and a second row with an id in use.
  \<^verbatim>\<open>prisma.comment.create\<close> then throws, and the handler's \<^verbatim>\<open>catch\<close> answers 500.
\<close>

definition comment_create_ok :: "comment \<Rightarrow> db \<Rightarrow> bool" where
  "comment_create_ok c d =
     (findUnique task_id (comment_taskId c) (tasks d) \<noteq> None \<and>
      findUnique comment_id (comment_id c) (comments d) = None)"

text \<open>
  \<^verbatim>\<open>router.post('/')\<close>. The id and the timestamps of the new row are the storage's
  (\<open>newId\<close>, \<open>now\<close>). The handler makes no check of its own before the insertion.
\<close>

definition comments_post ::
  "JWTPayload option \<Rightarrow> create_comment_body \<Rightarrow> uuid \<Rightarrow> date \<Rightarrow> db \<Rightarrow> (error + comment) \<times> db" where
  "comments_post token body newId now d =
     (case authenticateToken token d of
        Inl e \<Rightarrow> (Inl e, d)
      | Inr u \<Rightarrow>
          if \<not> createCommentSchema body then (Inl ValidationError, d)
          else
            let c = \<lparr>comment_id = newId, comment_content = cc_content body,
                     comment_taskId = cc_taskId body, comment_authorId = userId u,
                     comment_createdAt = now, comment_updatedAt = now\<rparr>
            in if comment_create_ok c d then (Inr c, d\<lparr>comments := comments d @ [c]\<rparr>)
               else (Inl InternalServerError, d))"

text \<open>\<^verbatim>\<open>prisma.comment.update({ where: { id }, data: { content } })\<close>.\<close>

definition comment_update :: "uuid \<Rightarrow> string \<Rightarrow> date \<Rightarrow> comment list \<Rightarrow> comment list" where
  "comment_update i content now cs =
     map (\<lambda>c. if comment_id c = i
               then c\<lparr>comment_content := content, comment_updatedAt := now\<rparr> else c) cs"

text \<open>\<^verbatim>\<open>router.put('/:id')\<close>: 404 for an unknown id, 403 unless the caller is the author.\<close>

definition comments_put ::
  "JWTPayload option \<Rightarrow> uuid \<Rightarrow> string \<Rightarrow> date \<Rightarrow> db \<Rightarrow> (error + comment) \<times> db" where
  "comments_put token i content now d =
     (case authenticateToken token d of
        Inl e \<Rightarrow> (Inl e, d)
      | Inr u \<Rightarrow>
          if \<not> updateCommentSchema content then (Inl ValidationError, d)
          else
            (case findUnique comment_id i (comments d) of
               None \<Rightarrow> (Inl NotFound, d)
             | Some c \<Rightarrow>
                 if comment_authorId c \<noteq> userId u then (Inl Forbidden, d)
                 else (Inr (c\<lparr>comment_content := content, comment_updatedAt := now\<rparr>),
                       d\<lparr>comments := comment_update i content now (comments d)\<rparr>)))"

text \<open>\<^verbatim>\<open>router.delete('/:id')\<close>: the same two checks, then the row is removed (204).\<close>

definition comments_delete :: "JWTPayload option \<Rightarrow> uuid \<Rightarrow> db \<Rightarrow> (error + unit) \<times> db" where
  "comments_delete token i d =
     (case authenticateToken token d of
        Inl e \<Rightarrow> (Inl e, d)
      | Inr u \<Rightarrow>
          (case findUnique comment_id i (comments d) of
             None \<Rightarrow> (Inl NotFound, d)
           | Some c \<Rightarrow>
               if comment_authorId c \<noteq> userId u then (Inl Forbidden, d)
               else (Inr (), d\<lparr>comments := filter (\<lambda>c. comment_id c \<noteq> i) (comments d)\<rparr>)))"

section \<open>Labels (\<^verbatim>\<open>routes/labels.ts\<close>)\<close>

text \<open>
  \<^verbatim>\<open>router.get('/project/:projectId')\<close>: behind \<^verbatim>\<open>authenticateToken\<close> only,
  \<^verbatim>\<open>findMany({ where: { projectId }, orderBy: { name: 'asc' } })\<close>. Names are compared
  character by character.
\<close>

definition labels_get_project :: "JWTPayload option \<Rightarrow> uuid \<Rightarrow> db \<Rightarrow> error + label list" where
  "labels_get_project token projectId d =
     (case authenticateToken token d of
        Inl e \<Rightarrow> Inl e
      | Inr u \<Rightarrow> Inr (sort_key label_name (filter (\<lambda>l. label_projectId l = projectId) (labels d))))"

section \<open>Tasks (the task routes, \<^verbatim>\<open>src/unnamed/part_001\<close>)\<close>

subsection \<open>The \<^verbatim>\<open>where\<close> object of the task queries\<close>

text \<open>
  The handlers build an untyped \<^verbatim>\<open>where\<close> object key by key. The record has one
  optional field per key the task list and the dashboard assign; assigning a key again
  replaces its value. The elements of an \<^verbatim>\<open>OR\<close> array are the four conditions the
  code writes.
\<close>

datatype task_cond =
  Title_contains string
| Description_contains string
| ProjectId_in "uuid list"
| AssigneeId_equals uuid

datatype status_filter = Status_equals TaskStatus | Status_not TaskStatus

record date_filter =
  gte :: "date option"
  lte :: "date option"
  lt :: "date option"

record task_where =
  where_status :: "status_filter option"
  where_priority :: "TaskPriority option"
  where_assigneeId :: "uuid option"
  where_projectId :: "uuid option"
  where_dueDate :: "date_filter option"
  where_updatedAt :: "date_filter option"
  where_OR :: "task_cond list option"
  where_labels :: "uuid list option"

definition empty_where :: task_where where
  "empty_where =
     \<lparr>where_status = None, where_priority = None, where_assigneeId = None,
      where_projectId = None, where_dueDate = None, where_updatedAt = None,
      where_OR = None, where_labels = None\<rparr>"

text \<open>
  What Prisma selects for such an object: the conjunction of the keys that are set; an
  \<^verbatim>\<open>OR\<close> array holds when one of its elements does; a comparison with a null column
  is false; \<^verbatim>\<open>labels: { some: { labelId: { in: ids } } }\<close> holds when one of the
  task's label rows has its id in \<open>ids\<close>.
\<close>

fun task_cond_holds :: "task \<Rightarrow> task_cond \<Rightarrow> bool" where
  "task_cond_holds t (Title_contains s) = contains_insensitive (task_title t) s"
| "task_cond_holds t (Description_contains s) =
     (case task_description t of None \<Rightarrow> False | Some x \<Rightarrow> contains_insensitive x s)"
| "task_cond_holds t (ProjectId_in ids) = List.member ids (task_projectId t)"
| "task_cond_holds t (AssigneeId_equals i) = (task_assigneeId t = Some i)"

definition status_filter_holds :: "TaskStatus \<Rightarrow> status_filter \<Rightarrow> bool" where
  "status_filter_holds s f =
     (case f of Status_equals x \<Rightarrow> s = x | Status_not x \<Rightarrow> s \<noteq> x)"

definition date_filter_holds :: "date option \<Rightarrow> date_filter \<Rightarrow> bool" where
  "date_filter_holds v f =
     (case v of
        None \<Rightarrow> gte f = None \<and> lte f = None \<and> lt f = None
      | Some x \<Rightarrow>
          (case gte f of None \<Rightarrow> True | Some b \<Rightarrow> b \<le> x) \<and>
          (case lte f of None \<Rightarrow> True | Some b \<Rightarrow> x \<le> b) \<and>
          (case lt f of None \<Rightarrow> True | Some b \<Rightarrow> x < b))"

definition task_matches :: "task_where \<Rightarrow> task \<Rightarrow> bool" where
  "task_matches w t =
     ((case where_status w of None \<Rightarrow> True | Some f \<Rightarrow> status_filter_holds (task_status t) f) \<and>
      (case where_priority w of None \<Rightarrow> True | Some p \<Rightarrow> task_priority t = p) \<and>
      (case where_assigneeId w of None \<Rightarrow> True | Some i \<Rightarrow> task_assigneeId t = Some i) \<and>
      (case where_projectId w of None \<Rightarrow> True | Some i \<Rightarrow> task_projectId t = i) \<and>
      (case where_dueDate w of None \<Rightarrow> True | Some f \<Rightarrow> date_filter_holds (task_dueDate t) f) \<and>
      (case where_updatedAt w of None \<Rightarrow> True
         | Some f \<Rightarrow> date_filter_holds (Some (task_updatedAt t)) f) \<and>
      (case where_OR w of None \<Rightarrow> True | Some cs \<Rightarrow> list_ex (task_cond_holds t) cs) \<and>
      (case where_labels w of None \<Rightarrow> True
         | Some ids \<Rightarrow> list_ex (\<lambda>l. List.member ids l) (task_labels t)))"

text \<open>\<^verbatim>\<open>prisma.task.count({ where })\<close>.\<close>

definition task_count :: "task_where \<Rightarrow> db \<Rightarrow> nat" where
  "task_count w d = length (filter (task_matches w) (tasks d))"

subsection \<open>Ordering and paging\<close>

datatype sort_field = CreatedAt | UpdatedAt | DueDate | Priority
datatype sort_order = Asc | Desc

text \<open>
  Modelled from the spec: the order of the enumeration \<open>TaskPriority\<close> in the storage is
  the schema's, which is not among the sources; the declaration order LOW, MEDIUM, HIGH,
  URGENT of section 3 is used.
\<close>

definition priority_rank :: "TaskPriority \<Rightarrow> int" where
  "priority_rank p = (case p of LOW \<Rightarrow> 0 | MEDIUM \<Rightarrow> 1 | HIGH \<Rightarrow> 2 | URGENT \<Rightarrow> 3)"

text \<open>
  The sort key of \<^verbatim>\<open>orderBy: { [sortBy]: sortOrder }\<close>. A null due date sorts after
  every date in ascending order and first in descending order. Rows with equal keys come
  in an order the storage does not fix; here they keep their table order in ascending
  order and the reverse of it in descending order.
\<close>

definition task_sort_key :: "sort_field \<Rightarrow> task \<Rightarrow> int \<times> int" where
  "task_sort_key f t =
     (case f of
        CreatedAt \<Rightarrow> (0, task_createdAt t)
      | UpdatedAt \<Rightarrow> (0, task_updatedAt t)
      | DueDate \<Rightarrow> (case task_dueDate t of None \<Rightarrow> (1, 0) | Some x \<Rightarrow> (0, x))
      | Priority \<Rightarrow> (0, priority_rank (task_priority t)))"

definition task_orderBy :: "sort_field \<Rightarrow> sort_order \<Rightarrow> task list \<Rightarrow> task list" where
  "task_orderBy f ord ts =
     (case ord of
        Asc \<Rightarrow> sort_key (task_sort_key f) ts
      | Desc \<Rightarrow> rev (sort_key (task_sort_key f) ts))"

text \<open>\<^verbatim>\<open>prisma.task.findMany({ where, skip, take, orderBy })\<close>.\<close>

definition task_findMany ::
  "task_where \<Rightarrow> sort_field \<Rightarrow> sort_order \<Rightarrow> nat \<Rightarrow> nat \<Rightarrow> db \<Rightarrow> task list" where
  "task_findMany w f ord skip tk d =
     take tk (drop skip (task_orderBy f ord (filter (task_matches w) (tasks d))))"

subsection \<open>\<^verbatim>\<open>router.get('/')\<close>: the task list\<close>

text \<open>
  The query string as \<^verbatim>\<open>taskQuerySchema\<close> types it; \<open>None\<close> is an absent parameter.
  \<^verbatim>\<open>validateRequest\<close> only checks: the handler reads \<^verbatim>\<open>req.query\<close> itself and
  applies its own defaults. Page and limit are integers here (Prisma's \<^verbatim>\<open>skip\<close> and
  \<^verbatim>\<open>take\<close> accept nothing else).
\<close>

record task_query =
  q_page :: "int option"
  q_limit :: "int option"
  q_status :: "TaskStatus option"
  q_priority :: "TaskPriority option"
  q_assigneeId :: "uuid option"
  q_projectId :: "uuid option"
  q_labelIds :: "uuid list option"
  q_search :: "string option"
  q_sortBy :: "sort_field option"
  q_sortOrder :: "sort_order option"
  q_startDate :: "date option"
  q_endDate :: "date option"

text \<open>
  \<^verbatim>\<open>page: z.coerce.number().min(1).default(1)\<close>,
  \<^verbatim>\<open>limit: z.coerce.number().min(1).max(100).default(10)\<close>.
\<close>

definition taskQuerySchema :: "task_query \<Rightarrow> bool" where
  "taskQuerySchema q =
     ((case q_page q of None \<Rightarrow> True | Some p \<Rightarrow> 1 \<le> p) \<and>
      (case q_limit q of None \<Rightarrow> True | Some l \<Rightarrow> 1 \<le> l \<and> l \<le> 100))"

text \<open>JavaScript truthiness of an optional string: present and not empty.\<close>

definition truthy :: "string option \<Rightarrow> bool" where
  "truthy s = (case s of None \<Rightarrow> False | Some x \<Rightarrow> x \<noteq> [])"

text \<open>Truthiness of an optional date parameter: a validated date string is never empty.\<close>

definition present :: "'a option \<Rightarrow> bool" where
  "present x = (case x of None \<Rightarrow> False | Some v \<Rightarrow> True)"

text \<open>
  Lines 59 to 84 of the handler: the requested filters, assigned to \<^verbatim>\<open>where\<close> in
  the order of the source.
\<close>

definition tasks_requested_filters :: "task_query \<Rightarrow> task_where" where
  "tasks_requested_filters q =
     (let w0 = empty_where;
          w1 = (case q_status q of None \<Rightarrow> w0
                | Some s \<Rightarrow> w0\<lparr>where_status := Some (Status_equals s)\<rparr>);
          w2 = (case q_priority q of None \<Rightarrow> w1 | Some p \<Rightarrow> w1\<lparr>where_priority := Some p\<rparr>);
          w3 = (if truthy (q_assigneeId q) then w2\<lparr>where_assigneeId := q_assigneeId q\<rparr> else w2);
          w4 = (if truthy (q_projectId q) then w3\<lparr>where_projectId := q_projectId q\<rparr> else w3);
          w5 = (if present (q_startDate q) \<or> present (q_endDate q)
                then w4\<lparr>where_dueDate :=
                          Some \<lparr>gte = q_startDate q, lte = q_endDate q, lt = None\<rparr>\<rparr>
                else w4);
          w6 = (case q_search q of None \<Rightarrow> w5
                | Some s \<Rightarrow>
                    if s \<noteq> []
                    then w5\<lparr>where_OR := Some [Title_contains s, Description_contains s]\<rparr>
                    else w5);
          w7 = (case q_labelIds q of None \<Rightarrow> w6
                | Some ids \<Rightarrow> if 0 < length ids then w6\<lparr>where_labels := Some ids\<rparr> else w6)
      in w7)"

text \<open>
  \<^verbatim>\<open>prisma.project.findMany({ where: { ownerId }, select: { id: true } })\<close> followed by
  \<^verbatim>\<open>userProjects.map(p => p.id)\<close>.
\<close>

definition userProjects :: "uuid \<Rightarrow> db \<Rightarrow> uuid list" where
  "userProjects uid d = map project_id (filter (\<lambda>p. project_ownerId p = uid) (projects d))"

text \<open>
  Lines 86 to 100: the role-based filtering, assigned to the same object. A MEMBER's
  restriction assigns \<^verbatim>\<open>where.assigneeId\<close>, a MANAGER's assigns \<^verbatim>\<open>where.OR\<close>.
\<close>

definition tasks_role_filter :: "JWTPayload \<Rightarrow> db \<Rightarrow> task_where \<Rightarrow> task_where" where
  "tasks_role_filter u d w =
     (if role u = MEMBER then w\<lparr>where_assigneeId := Some (userId u)\<rparr>
      else if role u = MANAGER
      then w\<lparr>where_OR :=
               Some [ProjectId_in (userProjects (userId u) d), AssigneeId_equals (userId u)]\<rparr>
      else w)"

definition tasks_where :: "JWTPayload \<Rightarrow> task_query \<Rightarrow> db \<Rightarrow> task_where" where
  "tasks_where u q d = tasks_role_filter u d (tasks_requested_filters q)"

text \<open>
  \<^verbatim>\<open>Math.ceil(total / Number(limit))\<close>; the quotient of the two counts is taken in the
  reals (the double-precision division is exact to the ceiling for counts below \<open>2^53\<close>).
\<close>

definition totalPages_of :: "nat \<Rightarrow> nat \<Rightarrow> nat" where
  "totalPages_of n limit = nat \<lceil>real n / real limit\<rceil>"

record task_list_response =
  data :: "task list"
  meta_page :: nat
  meta_limit :: nat
  meta_total :: nat
  meta_totalPages :: nat

text \<open>
  Line 56, the destructuring of \<^verbatim>\<open>req.query\<close> with its defaults:
  \<^verbatim>\<open>page = 1, limit = 10, sortBy = 'createdAt', sortOrder = 'desc'\<close>.
\<close>

definition page_of :: "task_query \<Rightarrow> nat" where
  "page_of q = nat (case q_page q of None \<Rightarrow> 1 | Some p \<Rightarrow> p)"

definition limit_of :: "task_query \<Rightarrow> nat" where
  "limit_of q = nat (case q_limit q of None \<Rightarrow> 10 | Some l \<Rightarrow> l)"

definition sortBy_of :: "task_query \<Rightarrow> sort_field" where
  "sortBy_of q = (case q_sortBy q of None \<Rightarrow> CreatedAt | Some f \<Rightarrow> f)"

definition sortOrder_of :: "task_query \<Rightarrow> sort_order" where
  "sortOrder_of q = (case q_sortOrder q of None \<Rightarrow> Desc | Some ord \<Rightarrow> ord)"

text \<open>
  The route: \<^verbatim>\<open>authenticateToken\<close>, \<^verbatim>\<open>validateRequest(taskQuerySchema)\<close>, then the
  handler: \<^verbatim>\<open>skip = (page - 1) * limit\<close>, the \<^verbatim>\<open>where\<close> object, and
  \<^verbatim>\<open>findMany\<close> and \<^verbatim>\<open>count\<close> on that one object.
\<close>

definition tasks_get :: "JWTPayload option \<Rightarrow> task_query \<Rightarrow> db \<Rightarrow> error + task_list_response" where
  "tasks_get token q d =
     (case authenticateToken token d of
        Inl e \<Rightarrow> Inl e
      | Inr u \<Rightarrow>
          if \<not> taskQuerySchema q then Inl ValidationError
          else
            let page = page_of q;
                limit = limit_of q;
                skip = (page - 1) * limit;
                w = tasks_where u q d;
                found = task_findMany w (sortBy_of q) (sortOrder_of q) skip limit d;
                n = task_count w d
            in Inr \<lparr>data = found, meta_page = page, meta_limit = limit, meta_total = n,
                     meta_totalPages = totalPages_of n limit\<rparr>)"

text \<open>
  Paging through a list: the rows a client receives when it sends the same query again
  for page \<open>p\<close> (nothing when the request is refused).
\<close>

definition tasks_get_page :: "JWTPayload option \<Rightarrow> task_query \<Rightarrow> db \<Rightarrow> nat \<Rightarrow> task list" where
  "tasks_get_page token q d p =
     (case tasks_get token (q\<lparr>q_page := Some (int p)\<rparr>) d of Inl e \<Rightarrow> [] | Inr r \<Rightarrow> data r)"

subsection \<open>\<^verbatim>\<open>router.post('/')\<close>: task creation\<close>

record create_task_body =
  ct_title :: string
  ct_description :: "string option"
  ct_status :: "TaskStatus option"
  ct_priority :: "TaskPriority option"
  ct_dueDate :: "date option"
  ct_assigneeId :: "uuid option"
  ct_projectId :: uuid
  ct_labelIds :: "uuid list option"

text \<open>\<^verbatim>\<open>createTaskSchema\<close>: \<^verbatim>\<open>title: z.string().min(1)\<close>; the other fields are typed.\<close>

definition createTaskSchema :: "create_task_body \<Rightarrow> bool" where
  "createTaskSchema body = (ct_title body \<noteq> [])"

text \<open>
  Modelled from the spec: the Prisma schema is not among the sources. By section 3 of
  the specification the assignee of a task references a user, its project a project and
  its label rows labels; the storage refuses a row that breaks one of these references
  or reuses an id, the write throws and the handler's \<^verbatim>\<open>catch\<close> answers 500.
\<close>

definition task_refs_ok :: "task \<Rightarrow> db \<Rightarrow> bool" where
  "task_refs_ok t d =
     ((case task_assigneeId t of None \<Rightarrow> True
         | Some a \<Rightarrow> findUnique user_id a (users d) \<noteq> None) \<and>
      findUnique project_id (task_projectId t) (projects d) \<noteq> None \<and>
      list_all (\<lambda>l. findUnique label_id l (labels d) \<noteq> None) (task_labels t))"

definition task_create_ok :: "task \<Rightarrow> db \<Rightarrow> bool" where
  "task_create_ok t d = (task_refs_ok t d \<and> findUnique task_id (task_id t) (tasks d) = None)"

text \<open>
  The route: \<^verbatim>\<open>authenticateToken\<close>, \<^verbatim>\<open>requireRole(['ADMIN', 'MANAGER'])\<close>,
  \<^verbatim>\<open>validateRequest(createTaskSchema)\<close>, then the handler: the project is looked up
  (404), a MANAGER must own it (403), and only then is the task inserted, with status
  BACKLOG and priority MEDIUM unless given.
\<close>

definition tasks_post ::
  "JWTPayload option \<Rightarrow> create_task_body \<Rightarrow> uuid \<Rightarrow> date \<Rightarrow> db \<Rightarrow> (error + task) \<times> db" where
  "tasks_post token body newId now d =
     (case authenticateToken token d of
        Inl e \<Rightarrow> (Inl e, d)
      | Inr u \<Rightarrow>
          if \<not> requireRole [ADMIN, MANAGER] u then (Inl Forbidden, d)
          else if \<not> createTaskSchema body then (Inl ValidationError, d)
          else
            (case findUnique project_id (ct_projectId body) (projects d) of
               None \<Rightarrow> (Inl NotFound, d)
             | Some p \<Rightarrow>
                 if role u = MANAGER \<and> project_ownerId p \<noteq> userId u then (Inl Forbidden, d)
                 else
                   let t = \<lparr>task_id = newId, task_title = ct_title body,
                            task_description = ct_description body,
                            task_status = (case ct_status body of None \<Rightarrow> BACKLOG | Some s \<Rightarrow> s),
                            task_priority =
                              (case ct_priority body of None \<Rightarrow> MEDIUM | Some x \<Rightarrow> x),
                            task_dueDate = ct_dueDate body,
                            task_assigneeId = ct_assigneeId body,
                            task_projectId = ct_projectId body,
                            task_labels = (case ct_labelIds body of None \<Rightarrow> [] | Some ls \<Rightarrow> ls),
                            task_createdAt = now, task_updatedAt = now\<rparr>
                   in if task_create_ok t d then (Inr t, d\<lparr>tasks := tasks d @ [t]\<rparr>)
                      else (Inl InternalServerError, d)))"

subsection \<open>\<^verbatim>\<open>router.put('/:id')\<close>: task update\<close>

record update_task_body =
  ut_title :: "string option"
  ut_description :: "string option"
  ut_status :: "TaskStatus option"
  ut_priority :: "TaskPriority option"
  ut_dueDate :: "date option"
  ut_assigneeId :: "uuid option"
  ut_labelIds :: "uuid list option"

text \<open>\<^verbatim>\<open>updateTaskSchema\<close>: every field optional, \<^verbatim>\<open>title: z.string().min(1).optional()\<close>.\<close>

definition updateTaskSchema :: "update_task_body \<Rightarrow> bool" where
  "updateTaskSchema body = (case ut_title body of None \<Rightarrow> True | Some s \<Rightarrow> s \<noteq> [])"

text \<open>
  The \<^verbatim>\<open>data\<close> object of \<^verbatim>\<open>prisma.task.update\<close> (lines 347 to 360), applied to the
  stored row. Prisma leaves a column whose value is \<^verbatim>\<open>undefined\<close> as it is and writes
  null where the value is \<^verbatim>\<open>null\<close>. The fields \<^verbatim>\<open>title\<close>, \<^verbatim>\<open>description\<close>,
  \<^verbatim>\<open>status\<close>, \<^verbatim>\<open>priority\<close> and \<^verbatim>\<open>assigneeId\<close> are passed as received;
  \<^verbatim>\<open>dueDate\<close> is \<^verbatim>\<open>dueDate ? new Date(dueDate) : null\<close>; \<^verbatim>\<open>labels\<close> is
  \<^verbatim>\<open>labelIds ? { deleteMany: {}, create: ... } : undefined\<close>.

  Modelled from the spec: the timestamp \<open>updatedAt\<close> is maintained by the storage on
  every update (the schema is not among the sources).
\<close>

definition task_update_data :: "update_task_body \<Rightarrow> date \<Rightarrow> task \<Rightarrow> task" where
  "task_update_data body now t =
     t\<lparr>task_title := (case ut_title body of None \<Rightarrow> task_title t | Some s \<Rightarrow> s),
       task_description :=
         (case ut_description body of None \<Rightarrow> task_description t | Some s \<Rightarrow> Some s),
       task_status := (case ut_status body of None \<Rightarrow> task_status t | Some s \<Rightarrow> s),
       task_priority := (case ut_priority body of None \<Rightarrow> task_priority t | Some x \<Rightarrow> x),
       task_dueDate := (case ut_dueDate body of None \<Rightarrow> None | Some x \<Rightarrow> Some x),
       task_assigneeId :=
         (case ut_assigneeId body of None \<Rightarrow> task_assigneeId t | Some a \<Rightarrow> Some a),
       task_labels := (case ut_labelIds body of None \<Rightarrow> task_labels t | Some ls \<Rightarrow> ls),
       task_updatedAt := now\<rparr>"

text \<open>
  \<^verbatim>\<open>task.project.ownerId\<close> of the row loaded with its project included. The relation
  is required; were the project missing, reading \<^verbatim>\<open>ownerId\<close> of null would throw.
\<close>

definition task_project_ownerId :: "task \<Rightarrow> db \<Rightarrow> uuid option" where
  "task_project_ownerId t d =
     map_option project_ownerId (findUnique project_id (task_projectId t) (projects d))"

text \<open>
  The route: \<^verbatim>\<open>authenticateToken\<close>, \<^verbatim>\<open>validateRequest(updateTaskSchema)\<close>, then the
  handler: 404 for an unknown id; a MEMBER must be the assignee; a MANAGER must own the
  task's project or be the assignee; then the update.
\<close>

definition tasks_put ::
  "JWTPayload option \<Rightarrow> uuid \<Rightarrow> update_task_body \<Rightarrow> date \<Rightarrow> db \<Rightarrow> (error + task) \<times> db" where
  "tasks_put token i body now d =
     (case authenticateToken token d of
        Inl e \<Rightarrow> (Inl e, d)
      | Inr u \<Rightarrow>
          if \<not> updateTaskSchema body then (Inl ValidationError, d)
          else
            (case findUnique task_id i (tasks d) of
               None \<Rightarrow> (Inl NotFound, d)
             | Some t \<Rightarrow>
                 if role u = MEMBER \<and> task_assigneeId t \<noteq> Some (userId u)
                 then (Inl Forbidden, d)
                 else if role u = MANAGER \<and> task_project_ownerId t d = None
                 then (Inl InternalServerError, d)
                 else if role u = MANAGER \<and> task_project_ownerId t d \<noteq> Some (userId u)
                           \<and> task_assigneeId t \<noteq> Some (userId u)
                 then (Inl Forbidden, d)
                 else
                   let t' = task_update_data body now t
                   in if task_refs_ok t' d
                      then (Inr t', d\<lparr>tasks := map (\<lambda>x. if task_id x = i then t' else x) (tasks d)\<rparr>)
                      else (Inl InternalServerError, d)))"

subsection \<open>\<^verbatim>\<open>router.delete('/:id')\<close>: task deletion\<close>

text \<open>
  Modelled from the spec: by section 3 the deletion of a task cascades to its comments
  (attachments are not part of this model; the label rows are part of the task row here).
\<close>

definition task_delete :: "uuid \<Rightarrow> db \<Rightarrow> db" where
  "task_delete i d =
     d\<lparr>tasks := filter (\<lambda>t. task_id t \<noteq> i) (tasks d),
       comments := filter (\<lambda>c. comment_taskId c \<noteq> i) (comments d)\<rparr>"

text \<open>
  The route: \<^verbatim>\<open>authenticateToken\<close>, \<^verbatim>\<open>requireRole(['ADMIN', 'MANAGER'])\<close>, then the
  handler: 404 for an unknown id; \<^verbatim>\<open>role === 'MANAGER' && task.project.ownerId !== userId\<close>
  answers 403 ("You can only delete tasks from your own projects"); then the deletion.
\<close>

definition tasks_delete :: "JWTPayload option \<Rightarrow> uuid \<Rightarrow> db \<Rightarrow> (error + unit) \<times> db" where
  "tasks_delete token i d =
     (case authenticateToken token d of
        Inl e \<Rightarrow> (Inl e, d)
      | Inr u \<Rightarrow>
          if \<not> requireRole [ADMIN, MANAGER] u then (Inl Forbidden, d)
          else
            (case findUnique task_id i (tasks d) of
               None \<Rightarrow> (Inl NotFound, d)
             | Some t \<Rightarrow>
                 if role u = MANAGER \<and> task_project_ownerId t d = None
                 then (Inl InternalServerError, d)
                 else if role u = MANAGER \<and> task_project_ownerId t d \<noteq> Some (userId u)
                 then (Inl Forbidden, d)
                 else (Inr (), task_delete i d)))"

section \<open>Projects (the project routes, \<^verbatim>\<open>src/unnamed/part_002\<close>): the project list\<close>

datatype project_cond =
  Name_contains string
| Project_description_contains string
| OwnerId_equals uuid
| Id_in "uuid list"

record project_where =
  pwhere_OR :: "project_cond list option"
  pwhere_ownerId :: "uuid option"
  pwhere_id_in :: "uuid list option"

fun project_cond_holds :: "project \<Rightarrow> project_cond \<Rightarrow> bool" where
  "project_cond_holds p (Name_contains s) = contains_insensitive (project_name p) s"
| "project_cond_holds p (Project_description_contains s) =
     (case project_description p of None \<Rightarrow> False | Some x \<Rightarrow> contains_insensitive x s)"
| "project_cond_holds p (OwnerId_equals i) = (project_ownerId p = i)"
| "project_cond_holds p (Id_in ids) = List.member ids (project_id p)"

definition project_matches :: "project_where \<Rightarrow> project \<Rightarrow> bool" where
  "project_matches w p =
     ((case pwhere_OR w of None \<Rightarrow> True | Some cs \<Rightarrow> list_ex (project_cond_holds p) cs) \<and>
      (case pwhere_ownerId w of None \<Rightarrow> True | Some i \<Rightarrow> project_ownerId p = i) \<and>
      (case pwhere_id_in w of None \<Rightarrow> True | Some ids \<Rightarrow> List.member ids (project_id p)))"

record project_query =
  pq_page :: "int option"
  pq_limit :: "int option"
  pq_search :: "string option"
  pq_ownerId :: "uuid option"

definition projectQuerySchema :: "project_query \<Rightarrow> bool" where
  "projectQuerySchema q =
     ((case pq_page q of None \<Rightarrow> True | Some p \<Rightarrow> 1 \<le> p) \<and>
      (case pq_limit q of None \<Rightarrow> True | Some l \<Rightarrow> 1 \<le> l \<and> l \<le> 100))"

text \<open>Lines 92 to 103 of the handler: the requested filters.\<close>

definition projects_requested_filters :: "project_query \<Rightarrow> project_where" where
  "projects_requested_filters q =
     (let w0 = \<lparr>pwhere_OR = None, pwhere_ownerId = None, pwhere_id_in = None\<rparr>;
          w1 = (case pq_search q of None \<Rightarrow> w0
                | Some s \<Rightarrow>
                    if s \<noteq> []
                    then w0\<lparr>pwhere_OR := Some [Name_contains s, Project_description_contains s]\<rparr>
                    else w0);
          w2 = (if truthy (pq_ownerId q) then w1\<lparr>pwhere_ownerId := pq_ownerId q\<rparr> else w1)
      in w2)"

text \<open>
  \<^verbatim>\<open>prisma.task.findMany({ where: { assigneeId }, select: { projectId: true },
  distinct: ['projectId'] })\<close> followed by \<^verbatim>\<open>userTaskProjects.map(t => t.projectId)\<close>.
\<close>

definition userTaskProjects :: "uuid \<Rightarrow> db \<Rightarrow> uuid list" where
  "userTaskProjects uid d =
     remdups (map task_projectId (filter (\<lambda>t. task_assigneeId t = Some uid) (tasks d)))"

text \<open>Lines 105 to 126: the role-based filtering, assigned to the same object.\<close>

definition projects_role_filter :: "JWTPayload \<Rightarrow> db \<Rightarrow> project_where \<Rightarrow> project_where" where
  "projects_role_filter u d w =
     (if role u = MEMBER then w\<lparr>pwhere_id_in := Some (userTaskProjects (userId u) d)\<rparr>
      else if role u = MANAGER
      then w\<lparr>pwhere_OR :=
               Some [OwnerId_equals (userId u), Id_in (userTaskProjects (userId u) d)]\<rparr>
      else w)"

definition projects_where :: "JWTPayload \<Rightarrow> project_query \<Rightarrow> db \<Rightarrow> project_where" where
  "projects_where u q d = projects_role_filter u d (projects_requested_filters q)"

record project_list_response =
  pdata :: "project list"
  pmeta_page :: nat
  pmeta_limit :: nat
  pmeta_total :: nat
  pmeta_totalPages :: nat

text \<open>
  The list: \<^verbatim>\<open>findMany({ where, skip, take, orderBy: { createdAt: 'desc' } })\<close> and
  \<^verbatim>\<open>count({ where })\<close>.
\<close>

definition projects_get ::
  "JWTPayload option \<Rightarrow> project_query \<Rightarrow> db \<Rightarrow> error + project_list_response" where
  "projects_get token q d =
     (case authenticateToken token d of
        Inl e \<Rightarrow> Inl e
      | Inr u \<Rightarrow>
          if \<not> projectQuerySchema q then Inl ValidationError
          else
            let page = nat (case pq_page q of None \<Rightarrow> 1 | Some p \<Rightarrow> p);
                limit = nat (case pq_limit q of None \<Rightarrow> 10 | Some l \<Rightarrow> l);
                skip = (page - 1) * limit;
                w = projects_where u q d;
                matching = filter (project_matches w) (projects d);
                found = take limit (drop skip (rev (sort_key project_createdAt matching)));
                n = length matching
            in Inr \<lparr>pdata = found, pmeta_page = page, pmeta_limit = limit, pmeta_total = n,
                     pmeta_totalPages = totalPages_of n limit\<rparr>)"

section \<open>Dashboard (\<^verbatim>\<open>routes/dashboard.ts\<close>)\<close>

text \<open>Lines 12 to 28: \<^verbatim>\<open>taskWhere\<close> and \<^verbatim>\<open>projectWhere\<close>, by role.\<close>

definition stats_taskWhere :: "JWTPayload \<Rightarrow> db \<Rightarrow> task_where" where
  "stats_taskWhere u d =
     (if role u = MEMBER then empty_where\<lparr>where_assigneeId := Some (userId u)\<rparr>
      else if role u = MANAGER
      then empty_where\<lparr>where_OR :=
               Some [ProjectId_in (userProjects (userId u) d), AssigneeId_equals (userId u)]\<rparr>
      else empty_where)"

definition stats_projectWhere :: "JWTPayload \<Rightarrow> project_where" where
  "stats_projectWhere u =
     (if role u = MANAGER
      then \<lparr>pwhere_OR = None, pwhere_ownerId = Some (userId u), pwhere_id_in = None\<rparr>
      else \<lparr>pwhere_OR = None, pwhere_ownerId = None, pwhere_id_in = None\<rparr>)"

text \<open>
  The counts and the five most recently updated tasks of the response. The weekly
  histogram, which formats calendar dates, is left out of the record. \<open>now\<close> is the
  instant \<^verbatim>\<open>new Date()\<close> returns.
\<close>

record dashboard_stats =
  totalTasks :: nat
  completedTasks :: nat
  overdueTasks :: nat
  totalProjects :: nat
  recentTasks :: "task list"

definition dashboard_get_stats :: "JWTPayload option \<Rightarrow> date \<Rightarrow> db \<Rightarrow> error + dashboard_stats" where
  "dashboard_get_stats token now d =
     (case authenticateToken token d of
        Inl e \<Rightarrow> Inl e
      | Inr u \<Rightarrow>
          let taskWhere = stats_taskWhere u d;
              projectWhere = stats_projectWhere u
          in Inr \<lparr>totalTasks = task_count taskWhere d,
                   completedTasks =
                     task_count (taskWhere\<lparr>where_status := Some (Status_equals DONE)\<rparr>) d,
                   overdueTasks =
                     task_count
                       (taskWhere\<lparr>where_dueDate := Some \<lparr>gte = None, lte = None, lt = Some now\<rparr>,
                                  where_status := Some (Status_not DONE)\<rparr>) d,
                   totalProjects = length (filter (project_matches projectWhere) (projects d)),
                   recentTasks = task_findMany taskWhere UpdatedAt Desc 0 5 d\<rparr>)"

section \<open>A sample database\<close>

text \<open>
  Five users (an administrator, two managers, two members), two projects, three tasks,
  three labels and one comment, in the shape of the seed script. The project
  \<open>website\<close> belongs to the first manager; the second manager owns no project and is
  the assignee of the task \<open>report\<close> in it.
\<close>

definition admin_id :: uuid where "admin_id = ''a0000000-0000-4000-8000-000000000001''"
definition manager1_id :: uuid where "manager1_id = ''b1000000-0000-4000-8000-000000000002''"
definition manager2_id :: uuid where "manager2_id = ''c2000000-0000-4000-8000-000000000003''"
definition member1_id :: uuid where "member1_id = ''d1000000-0000-4000-8000-000000000004''"
definition member2_id :: uuid where "member2_id = ''e2000000-0000-4000-8000-000000000005''"

definition website_id :: uuid where "website_id = ''f1000000-0000-4000-8000-000000000006''"
definition mobile_id :: uuid where "mobile_id = ''f2000000-0000-4000-8000-000000000007''"
definition missing_id :: uuid where "missing_id = ''f9000000-0000-4000-8000-000000000008''"

definition homepage_id :: uuid where "homepage_id = ''11000000-0000-4000-8000-000000000009''"
definition report_id :: uuid where "report_id = ''12000000-0000-4000-8000-00000000000a''"
definition login_id :: uuid where "login_id = ''13000000-0000-4000-8000-00000000000b''"
definition fresh_id :: uuid where "fresh_id = ''19000000-0000-4000-8000-00000000000c''"

definition frontend_id :: uuid where "frontend_id = ''21000000-0000-4000-8000-00000000000d''"
definition backend_id :: uuid where "backend_id = ''22000000-0000-4000-8000-00000000000e''"
definition bug_id :: uuid where "bug_id = ''23000000-0000-4000-8000-00000000000f''"

definition remark_id :: uuid where "remark_id = ''31000000-0000-4000-8000-000000000010''"

definition admin :: JWTPayload where
  "admin = \<lparr>userId = admin_id, email = ''admin@example.com'', role = ADMIN\<rparr>"
definition manager1 :: JWTPayload where
  "manager1 = \<lparr>userId = manager1_id, email = ''manager@example.com'', role = MANAGER\<rparr>"
definition manager2 :: JWTPayload where
  "manager2 = \<lparr>userId = manager2_id, email = ''lead@example.com'', role = MANAGER\<rparr>"
definition member1 :: JWTPayload where
  "member1 = \<lparr>userId = member1_id, email = ''member@example.com'', role = MEMBER\<rparr>"
definition member2 :: JWTPayload where
  "member2 = \<lparr>userId = member2_id, email = ''guest@example.com'', role = MEMBER\<rparr>"

definition user_of :: "JWTPayload \<Rightarrow> string \<Rightarrow> user" where
  "user_of u n = \<lparr>user_id = userId u, user_email = email u, user_name = n, user_role = role u\<rparr>"

definition website :: project where
  "website = \<lparr>project_id = website_id, project_name = ''Website Redesign'',
              project_description = Some ''Complete redesign of company website'',
              project_ownerId = manager1_id, project_createdAt = 100\<rparr>"

definition mobile :: project where
  "mobile = \<lparr>project_id = mobile_id, project_name = ''Mobile App Development'',
             project_description = None,
             project_ownerId = admin_id, project_createdAt = 200\<rparr>"

definition homepage :: task where
  "homepage = \<lparr>task_id = homepage_id, task_title = ''Design Homepage Layout'',
               task_description = Some ''Create wireframes and mockups'',
               task_status = DONE, task_priority = HIGH, task_dueDate = Some 5000,
               task_assigneeId = Some member1_id, task_projectId = website_id,
               task_labels = [frontend_id], task_createdAt = 300, task_updatedAt = 900\<rparr>"

definition report :: task where
  "report = \<lparr>task_id = report_id, task_title = ''Write Status Report'',
             task_description = None,
             task_status = IN_PROGRESS, task_priority = URGENT, task_dueDate = Some 6000,
             task_assigneeId = Some manager2_id, task_projectId = website_id,
             task_labels = [], task_createdAt = 400, task_updatedAt = 800\<rparr>"

definition login :: task where
  "login = \<lparr>task_id = login_id, task_title = ''Fix Login Bug'',
            task_description = Some ''Users cannot sign in'',
            task_status = BACKLOG, task_priority = MEDIUM, task_dueDate = None,
            task_assigneeId = None, task_projectId = mobile_id,
            task_labels = [bug_id], task_createdAt = 500, task_updatedAt = 500\<rparr>"

definition frontend :: label where
  "frontend = \<lparr>label_id = frontend_id, label_name = ''Frontend'', label_color = ''#3B82F6'',
               label_projectId = website_id\<rparr>"
definition backend :: label where
  "backend = \<lparr>label_id = backend_id, label_name = ''Backend'', label_color = ''#10B981'',
              label_projectId = website_id\<rparr>"
definition bug :: label where
  "bug = \<lparr>label_id = bug_id, label_name = ''Bug'', label_color = ''#EF4444'',
          label_projectId = mobile_id\<rparr>"

definition remark :: comment where
  "remark = \<lparr>comment_id = remark_id, comment_content = ''Looks good'',
           comment_taskId = homepage_id, comment_authorId = member1_id,
           comment_createdAt = 600, comment_updatedAt = 600\<rparr>"

definition sample_db :: db where
  "sample_db =
     \<lparr>users = [user_of admin ''Admin User'', user_of manager1 ''Manager User'',
               user_of manager2 ''Lead User'', user_of member1 ''Member User'',
               user_of member2 ''Guest User''],
      projects = [website, mobile],
      tasks = [homepage, report, login],
      labels = [frontend, backend, bug],
      comments = [remark]\<rparr>"

text \<open>A creation payload with a title and a project, and an update payload with a title only.\<close>

definition new_task :: "uuid \<Rightarrow> create_task_body" where
  "new_task p =
     \<lparr>ct_title = ''T'', ct_description = None, ct_status = None, ct_priority = None,
      ct_dueDate = None, ct_assigneeId = None, ct_projectId = p, ct_labelIds = None\<rparr>"

definition rename :: "string \<Rightarrow> update_task_body" where
  "rename s =
     \<lparr>ut_title = Some s, ut_description = None, ut_status = None, ut_priority = None,
      ut_dueDate = None, ut_assigneeId = None, ut_labelIds = None\<rparr>"

definition no_filters :: task_query where
  "no_filters =
     \<lparr>q_page = None, q_limit = None, q_status = None, q_priority = None,
      q_assigneeId = None, q_projectId = None, q_labelIds = None, q_search = None,
      q_sortBy = None, q_sortOrder = None, q_startDate = None, q_endDate = None\<rparr>"

text \<open>The two list queries with a search text and nothing else.\<close>

definition search_for :: "string \<Rightarrow> task_query" where
  "search_for s = no_filters\<lparr>q_search := Some s\<rparr>"

definition project_search_for :: "string \<Rightarrow> project_query" where
  "project_search_for s = \<lparr>pq_page = None, pq_limit = None, pq_search = Some s, pq_ownerId = None\<rparr>"

text \<open>The task list without filters, with a page size.\<close>

definition paged :: "int \<Rightarrow> task_query" where
  "paged l = no_filters\<lparr>q_limit := Some l\<rparr>"

section \<open>Verification\<close>

subsection \<open>Evaluating the sample database\<close>

lemmas sample_ids =
  admin_id_def manager1_id_def manager2_id_def member1_id_def member2_id_def
  website_id_def mobile_id_def missing_id_def homepage_id_def report_id_def login_id_def
  fresh_id_def frontend_id_def backend_id_def bug_id_def remark_id_def

lemmas sample_rows =
  admin_def manager1_def manager2_def member1_def member2_def user_of_def
  website_def mobile_def homepage_def report_def login_def frontend_def backend_def bug_def
  remark_def sample_db_def

lemma sample_authenticated:
  "authenticateToken (Some admin) sample_db = Inr admin"
  "authenticateToken (Some manager1) sample_db = Inr manager1"
  "authenticateToken (Some manager2) sample_db = Inr manager2"
  "authenticateToken (Some member1) sample_db = Inr member1"
  "authenticateToken (Some member2) sample_db = Inr member2"
  by (simp_all add: authenticateToken_def findUnique_def sample_rows sample_ids)

lemma sample_callers:
  "role admin = ADMIN" "userId admin = admin_id"
  "role manager1 = MANAGER" "userId manager1 = manager1_id"
  "role manager2 = MANAGER" "userId manager2 = manager2_id"
  "role member1 = MEMBER" "userId member1 = member1_id"
  "role member2 = MEMBER" "userId member2 = member2_id"
  by (simp_all add: admin_def manager1_def manager2_def member1_def member2_def)

subsection \<open>Comments\<close>

text \<open>
  C4. For an existing comment and an authenticated caller of any role, update and delete
  succeed exactly when the caller is the author of the comment; any other caller, an
  administrator included, gets Forbidden and the database is left as it was. (The update
  carries a content that passed the schema.)
\<close>

theorem comment_mutation_author_only:
  assumes "authenticateToken token d = Inr u"
    and "findUnique comment_id i (comments d) = Some c"
    and "updateCommentSchema content"
  shows "(\<not> isl (fst (comments_put token i content now d)) \<longleftrightarrow> userId u = comment_authorId c) \<and>
         (\<not> isl (fst (comments_delete token i d)) \<longleftrightarrow> userId u = comment_authorId c) \<and>
         (userId u \<noteq> comment_authorId c \<longrightarrow>
            comments_put token i content now d = (Inl Forbidden, d) \<and>
            comments_delete token i d = (Inl Forbidden, d)) \<and>
         (userId u = comment_authorId c \<longrightarrow>
            comments_put token i content now d =
              (Inr (c\<lparr>comment_content := content, comment_updatedAt := now\<rparr>),
               d\<lparr>comments := comment_update i content now (comments d)\<rparr>) \<and>
            comments_delete token i d =
              (Inr (), d\<lparr>comments := filter (\<lambda>x. comment_id x \<noteq> i) (comments d)\<rparr>))"
  using assms by (auto simp: comments_put_def comments_delete_def)

theorem comment_mutation_author_only_witness:
  "authenticateToken (Some admin) sample_db = Inr admin \<and>
   role admin = ADMIN \<and>
   findUnique comment_id remark_id (comments sample_db) = Some remark \<and>
   updateCommentSchema ''edited'' \<and>
   userId admin \<noteq> comment_authorId remark \<and>
   comments_put (Some admin) remark_id ''edited'' 700 sample_db = (Inl Forbidden, sample_db) \<and>
   comments_delete (Some admin) remark_id sample_db = (Inl Forbidden, sample_db) \<and>
   authenticateToken (Some member1) sample_db = Inr member1 \<and>
   userId member1 = comment_authorId remark \<and>
   \<not> isl (fst (comments_put (Some member1) remark_id ''edited'' 700 sample_db)) \<and>
   \<not> isl (fst (comments_delete (Some member1) remark_id sample_db))"
proof -
  have f: "findUnique comment_id remark_id (comments sample_db) = Some remark"
    by (simp add: findUnique_def sample_rows)
  have v: "updateCommentSchema ''edited''"
    by (simp add: updateCommentSchema_def)
  have n: "userId admin \<noteq> comment_authorId remark"
    by (simp add: sample_rows sample_ids)
  have e: "userId member1 = comment_authorId remark"
    by (simp add: sample_rows sample_ids)
  have r: "role admin = ADMIN"
    by (simp add: admin_def)
  note a = sample_authenticated(1) and m = sample_authenticated(4)
  from comment_mutation_author_only [OF a f v, of 700]
       comment_mutation_author_only [OF m f v, of 700] a m f v n e r
  show ?thesis by simp
qed

text \<open>
  C9. Posting a comment has no role gate, no visibility check and no look-up of the task:
  whatever the caller and the task id, the answer is never Forbidden (and never NotFound),
  and an authenticated caller with a non-empty content naming a stored task gets the
  comment inserted under their own id.
\<close>

theorem comment_create_no_gate:
  "fst (comments_post token body newId now d) \<noteq> Inl Forbidden \<and>
   fst (comments_post token body newId now d) \<noteq> Inl NotFound \<and>
   (authenticateToken token d = Inr u \<and> createCommentSchema body \<and>
    findUnique task_id (cc_taskId body) (tasks d) \<noteq> None \<and>
    findUnique comment_id newId (comments d) = None \<longrightarrow>
      comments_post token body newId now d =
        (Inr \<lparr>comment_id = newId, comment_content = cc_content body,
              comment_taskId = cc_taskId body, comment_authorId = userId u,
              comment_createdAt = now, comment_updatedAt = now\<rparr>,
         d\<lparr>comments := comments d @
              [\<lparr>comment_id = newId, comment_content = cc_content body,
                comment_taskId = cc_taskId body, comment_authorId = userId u,
                comment_createdAt = now, comment_updatedAt = now\<rparr>]\<rparr>))"
  by (auto simp: comments_post_def authenticateToken_def comment_create_ok_def Let_def
           split: option.splits sum.splits)

lemma member2_lists_nothing:
  "map_sum id data (tasks_get (Some member2) no_filters sample_db) = Inr []"
  by (simp add: tasks_get_def sample_authenticated sample_callers taskQuerySchema_def
        page_of_def limit_of_def sortBy_of_def sortOrder_of_def
        no_filters_def tasks_where_def tasks_requested_filters_def tasks_role_filter_def
        truthy_def present_def empty_where_def task_findMany_def Let_def)
     (simp add: task_matches_def task_orderBy_def sample_db_def homepage_def report_def
        login_def sample_ids)

theorem comment_create_no_gate_witness:
  "authenticateToken (Some member2) sample_db = Inr member2 \<and>
   role member2 = MEMBER \<and>
   task_assigneeId homepage \<noteq> Some (userId member2) \<and>
   map_sum id data (tasks_get (Some member2) no_filters sample_db) = Inr [] \<and>
   createCommentSchema \<lparr>cc_content = ''Hello'', cc_taskId = homepage_id\<rparr> \<and>
   findUnique task_id homepage_id (tasks sample_db) = Some homepage \<and>
   findUnique comment_id fresh_id (comments sample_db) = None \<and>
   \<not> isl (fst (comments_post (Some member2) \<lparr>cc_content = ''Hello'', cc_taskId = homepage_id\<rparr>
                  fresh_id 700 sample_db))"
proof -
  have v: "createCommentSchema \<lparr>cc_content = ''Hello'', cc_taskId = homepage_id\<rparr>"
    by (simp add: createCommentSchema_def)
  have t: "findUnique task_id homepage_id (tasks sample_db) = Some homepage"
    by (simp add: findUnique_def sample_rows)
  have c: "findUnique comment_id fresh_id (comments sample_db) = None"
    by (simp add: findUnique_def sample_rows sample_ids)
  have r: "role member2 = MEMBER"
    by (simp add: member2_def)
  have n: "task_assigneeId homepage \<noteq> Some (userId member2)"
    by (simp add: sample_rows sample_ids)
  note a = sample_authenticated(5)
  from comment_create_no_gate
         [of "Some member2" "\<lparr>cc_content = ''Hello'', cc_taskId = homepage_id\<rparr>" fresh_id 700
             sample_db member2]
       a v t c r n member2_lists_nothing
  show ?thesis by simp
qed

subsection \<open>Labels\<close>

text \<open>
  C10. The label list of a project answers every authenticated caller alike: it holds
  exactly the labels of that project (each as often as stored), sorted by name in
  ascending order, with no role restriction and no scoping by what the caller may see.
\<close>

theorem labels_list_unscoped:
  assumes "authenticateToken token d = Inr u"
  shows "\<exists>ls. labels_get_project token projectId d = Inr ls \<and>
           mset ls = filter_mset (\<lambda>l. label_projectId l = projectId) (mset (labels d)) \<and>
           sorted (map label_name ls) \<and>
           (\<forall>token' u'. authenticateToken token' d = Inr u' \<longrightarrow>
              labels_get_project token' projectId d = Inr ls)"
  using assms by (simp add: labels_get_project_def)

theorem labels_list_unscoped_witness:
  "authenticateToken (Some member2) sample_db = Inr member2 \<and>
   role member2 = MEMBER \<and>
   filter (\<lambda>t. task_assigneeId t = Some (userId member2)) (tasks sample_db) = [] \<and>
   labels_get_project (Some member2) website_id sample_db = Inr [backend, frontend] \<and>
   labels_get_project (Some admin) website_id sample_db = Inr [backend, frontend]"
proof -
  note a = sample_authenticated(5)
  have r: "role member2 = MEMBER"
    by (simp add: member2_def)
  have n: "filter (\<lambda>t. task_assigneeId t = Some (userId member2)) (tasks sample_db) = []"
    by (simp add: sample_rows sample_ids)
  have l: "labels_get_project (Some member2) website_id sample_db = Inr [backend, frontend]"
    by (simp add: labels_get_project_def a)
       (simp add: sample_db_def frontend_def backend_def bug_def sample_ids)
  from labels_list_unscoped [OF a, of website_id] l sample_authenticated(1)
  have "labels_get_project (Some admin) website_id sample_db = Inr [backend, frontend]"
    by auto
  with a r n l show ?thesis by simp
qed

subsection \<open>Task deletion\<close>

text \<open>
  C6, as stated, fails on the code: a MANAGER who is the assignee of a task but not the
  owner of its project is refused. In the sample database the second manager is the
  assignee of the task \<open>report\<close>, whose project belongs to the first manager.
\<close>

theorem task_delete_assignee_manager_counterexample:
  "authenticateToken (Some manager2) sample_db = Inr manager2 \<and>
   role manager2 = MANAGER \<and>
   findUnique task_id report_id (tasks sample_db) = Some report \<and>
   task_assigneeId report = Some (userId manager2) \<and>
   task_project_ownerId report sample_db = Some manager1_id \<and>
   manager1_id \<noteq> userId manager2 \<and>
   tasks_delete (Some manager2) report_id sample_db = (Inl Forbidden, sample_db)"
proof -
  have f: "findUnique task_id report_id (tasks sample_db) = Some report"
    by (simp add: findUnique_def sample_db_def homepage_def report_def sample_ids)
  have o: "task_project_ownerId report sample_db = Some manager1_id"
    by (simp add: task_project_ownerId_def findUnique_def sample_db_def report_def website_def)
  have n: "manager1_id \<noteq> userId manager2"
    by (simp add: sample_callers sample_ids)
  have a: "task_assigneeId report = Some (userId manager2)"
    by (simp add: report_def sample_callers)
  have "tasks_delete (Some manager2) report_id sample_db = (Inl Forbidden, sample_db)"
    using n by (simp add: tasks_delete_def sample_authenticated requireRole_def sample_callers f o)
  with f o n a show ?thesis
    by (simp add: sample_authenticated sample_callers)
qed

text \<open>
  C6, amended. For an existing task and a MANAGER caller, deletion is decided by the
  ownership of the task's project alone: the owner deletes the task (and its comments
  with it), every other MANAGER gets Forbidden and the database is left as it was,
  whether or not they are the assignee.
\<close>

theorem task_delete_owner_only:
  assumes "authenticateToken token d = Inr u"
    and "role u = MANAGER"
    and "findUnique task_id i (tasks d) = Some t"
    and "task_project_ownerId t d = Some owner"
  shows "(owner = userId u \<longrightarrow> tasks_delete token i d = (Inr (), task_delete i d)) \<and>
         (owner \<noteq> userId u \<longrightarrow> tasks_delete token i d = (Inl Forbidden, d))"
  using assms by (simp add: tasks_delete_def requireRole_def)

theorem task_delete_owner_only_witness:
  "authenticateToken (Some manager1) sample_db = Inr manager1 \<and>
   authenticateToken (Some manager2) sample_db = Inr manager2 \<and>
   role manager1 = MANAGER \<and> role manager2 = MANAGER \<and>
   findUnique task_id report_id (tasks sample_db) = Some report \<and>
   task_project_ownerId report sample_db = Some manager1_id \<and>
   manager1_id = userId manager1 \<and>
   manager1_id \<noteq> userId manager2 \<and>
   tasks_delete (Some manager1) report_id sample_db = (Inr (), task_delete report_id sample_db) \<and>
   tasks_delete (Some manager2) report_id sample_db = (Inl Forbidden, sample_db)"
proof -
  have f: "findUnique task_id report_id (tasks sample_db) = Some report"
    by (simp add: findUnique_def sample_db_def homepage_def report_def sample_ids)
  have o: "task_project_ownerId report sample_db = Some manager1_id"
    by (simp add: task_project_ownerId_def findUnique_def sample_db_def report_def website_def)
  have n: "manager1_id \<noteq> userId manager2"
    by (simp add: sample_callers sample_ids)
  have e: "manager1_id = userId manager1"
    by (simp add: sample_callers)
  from task_delete_owner_only [OF sample_authenticated(2) sample_callers(3) f o]
       task_delete_owner_only [OF sample_authenticated(3) sample_callers(5) f o]
       f o n e
  show ?thesis
    by (simp add: sample_authenticated sample_callers)
qed

subsection \<open>Task creation\<close>

text \<open>
  C7. For a task creation by an authenticated ADMIN or MANAGER with a valid body: an
  unknown project answers NotFound, whoever asks; a known project that a MANAGER does not
  own answers Forbidden; in both cases the database is left as it was, and the table of
  tasks changes only when the project exists and the caller is an ADMIN or its owner.
\<close>

theorem task_create_checks:
  assumes "authenticateToken token d = Inr u"
    and "role u = ADMIN \<or> role u = MANAGER"
    and "createTaskSchema body"
  shows "(findUnique project_id (ct_projectId body) (projects d) = None \<longrightarrow>
            tasks_post token body newId now d = (Inl NotFound, d)) \<and>
         (\<forall>p. findUnique project_id (ct_projectId body) (projects d) = Some p \<and>
              role u = MANAGER \<and> project_ownerId p \<noteq> userId u \<longrightarrow>
            tasks_post token body newId now d = (Inl Forbidden, d)) \<and>
         (isl (fst (tasks_post token body newId now d)) \<longrightarrow>
            snd (tasks_post token body newId now d) = d) \<and>
         (tasks (snd (tasks_post token body newId now d)) \<noteq> tasks d \<longrightarrow>
            (\<exists>p. findUnique project_id (ct_projectId body) (projects d) = Some p \<and>
                 (role u = ADMIN \<or> project_ownerId p = userId u)))"
  using assms
  by (auto simp: tasks_post_def requireRole_def Let_def split: option.splits)

theorem task_create_checks_witness:
  "authenticateToken (Some manager2) sample_db = Inr manager2 \<and>
   role manager2 = MANAGER \<and>
   createTaskSchema (new_task website_id) \<and> createTaskSchema (new_task missing_id) \<and>
   findUnique project_id website_id (projects sample_db) = Some website \<and>
   project_ownerId website \<noteq> userId manager2 \<and>
   tasks_post (Some manager2) (new_task website_id) fresh_id 700 sample_db
     = (Inl Forbidden, sample_db) \<and>
   findUnique project_id missing_id (projects sample_db) = None \<and>
   tasks_post (Some manager2) (new_task missing_id) fresh_id 700 sample_db
     = (Inl NotFound, sample_db)"
proof -
  have v: "createTaskSchema (new_task website_id)" "createTaskSchema (new_task missing_id)"
    by (simp_all add: createTaskSchema_def new_task_def)
  have f: "findUnique project_id website_id (projects sample_db) = Some website"
    by (simp add: findUnique_def sample_db_def website_def)
  have g: "findUnique project_id missing_id (projects sample_db) = None"
    by (simp add: findUnique_def sample_db_def website_def mobile_def sample_ids)
  have n: "project_ownerId website \<noteq> userId manager2"
    by (simp add: website_def sample_callers sample_ids)
  have r: "role manager2 = ADMIN \<or> role manager2 = MANAGER"
    by (simp add: sample_callers)
  have f': "findUnique project_id (ct_projectId (new_task website_id)) (projects sample_db)
              = Some website"
    using f by (simp add: new_task_def)
  have g': "findUnique project_id (ct_projectId (new_task missing_id)) (projects sample_db)
              = None"
    using g by (simp add: new_task_def)
  note c1 = task_create_checks [OF sample_authenticated(3) r v(1), of fresh_id 700]
  note c2 = task_create_checks [OF sample_authenticated(3) r v(2), of fresh_id 700]
  have A: "tasks_post (Some manager2) (new_task website_id) fresh_id 700 sample_db
             = (Inl Forbidden, sample_db)"
    using c1 f' n sample_callers(5) by blast
  have B: "tasks_post (Some manager2) (new_task missing_id) fresh_id 700 sample_db
             = (Inl NotFound, sample_db)"
    using c2 g' by blast
  show ?thesis
    using A B v f g n sample_authenticated(3) sample_callers(5) by blast
qed

subsection \<open>Task update\<close>

text \<open>
  What the update writes, field by field: an omitted title, description, status,
  priority, assignee or label list leaves the stored value; the due date is always
  replaced by the payload's, which is null when the payload has none.
\<close>

lemma task_update_data_fields:
  "task_title (task_update_data body now t) =
     (case ut_title body of None \<Rightarrow> task_title t | Some s \<Rightarrow> s)"
  "task_description (task_update_data body now t) =
     (case ut_description body of None \<Rightarrow> task_description t | Some s \<Rightarrow> Some s)"
  "task_status (task_update_data body now t) =
     (case ut_status body of None \<Rightarrow> task_status t | Some s \<Rightarrow> s)"
  "task_priority (task_update_data body now t) =
     (case ut_priority body of None \<Rightarrow> task_priority t | Some s \<Rightarrow> s)"
  "task_assigneeId (task_update_data body now t) =
     (case ut_assigneeId body of None \<Rightarrow> task_assigneeId t | Some s \<Rightarrow> Some s)"
  "task_labels (task_update_data body now t) =
     (case ut_labelIds body of None \<Rightarrow> task_labels t | Some s \<Rightarrow> s)"
  "task_dueDate (task_update_data body now t) = ut_dueDate body"
  "task_id (task_update_data body now t) = task_id t"
  "task_projectId (task_update_data body now t) = task_projectId t"
  "task_createdAt (task_update_data body now t) = task_createdAt t"
  by (simp_all add: task_update_data_def split: option.splits)

text \<open>
  C5 fails on the code. The administrator renames the task \<open>homepage\<close>, whose due date
  is 5000, with a payload that holds a title and nothing else: the update succeeds, the
  title is replaced, every other payload field keeps its value, and the due date is
  null afterwards.
\<close>

theorem task_update_title_clears_dueDate:
  "task_dueDate homepage = Some 5000 \<and>
   ut_dueDate (rename ''Landing page'') = None \<and>
   tasks_put (Some admin) homepage_id (rename ''Landing page'') 1000 sample_db =
     (Inr (homepage\<lparr>task_title := ''Landing page'', task_dueDate := None,
                     task_updatedAt := 1000\<rparr>),
      sample_db\<lparr>tasks := [homepage\<lparr>task_title := ''Landing page'', task_dueDate := None,
                                    task_updatedAt := 1000\<rparr>, report, login]\<rparr>)"
proof -
  have f: "findUnique task_id homepage_id (tasks sample_db) = Some homepage"
    by (simp add: findUnique_def sample_db_def homepage_def)
  have v: "updateTaskSchema (rename ''Landing page'')"
    by (simp add: updateTaskSchema_def rename_def)
  have u: "task_update_data (rename ''Landing page'') 1000 homepage =
             homepage\<lparr>task_title := ''Landing page'', task_dueDate := None,
                       task_updatedAt := 1000\<rparr>"
    by (simp add: task_update_data_def rename_def homepage_def)
  have k: "task_refs_ok (homepage\<lparr>task_title := ''Landing page'', task_dueDate := None,
                                  task_updatedAt := 1000\<rparr>) sample_db"
    by (simp add: task_refs_ok_def findUnique_def sample_rows sample_ids)
  have m: "map (\<lambda>x. if task_id x = homepage_id then t' else x) (tasks sample_db) =
             [t', report, login]" for t'
    by (simp add: sample_db_def homepage_def report_def login_def sample_ids)
  have "tasks_put (Some admin) homepage_id (rename ''Landing page'') 1000 sample_db =
     (Inr (homepage\<lparr>task_title := ''Landing page'', task_dueDate := None,
                     task_updatedAt := 1000\<rparr>),
      sample_db\<lparr>tasks := [homepage\<lparr>task_title := ''Landing page'', task_dueDate := None,
                                    task_updatedAt := 1000\<rparr>, report, login]\<rparr>)"
    by (simp add: tasks_put_def sample_authenticated sample_callers v f u k m Let_def)
  then show ?thesis
    by (simp add: homepage_def rename_def)
qed

lemma sample_ids_distinct:
  "distinct [admin_id, manager1_id, manager2_id, member1_id, member2_id, website_id, mobile_id,
     missing_id, homepage_id, report_id, login_id, fresh_id, frontend_id, backend_id, bug_id,
     remark_id]"
  "distinct [remark_id, bug_id, backend_id, frontend_id, fresh_id, login_id, report_id,
     homepage_id, missing_id, mobile_id, website_id, member2_id, member1_id, manager2_id,
     manager1_id, admin_id]"
proof -
  have "distinct (map (take 2) [admin_id, manager1_id, manager2_id, member1_id, member2_id,
     website_id, mobile_id, missing_id, homepage_id, report_id, login_id, fresh_id, frontend_id,
     backend_id, bug_id, remark_id])"
    by (simp add: sample_ids)
  then show "distinct [admin_id, manager1_id, manager2_id, member1_id, member2_id, website_id,
     mobile_id, missing_id, homepage_id, report_id, login_id, fresh_id, frontend_id, backend_id,
     bug_id, remark_id]"
    by (simp only: distinct_map)
  then have "distinct (rev [admin_id, manager1_id, manager2_id, member1_id, member2_id,
     website_id, mobile_id, missing_id, homepage_id, report_id, login_id, fresh_id, frontend_id,
     backend_id, bug_id, remark_id])"
    by (simp only: distinct_rev)
  then show "distinct [remark_id, bug_id, backend_id, frontend_id, fresh_id, login_id, report_id,
     homepage_id, missing_id, mobile_id, website_id, member2_id, member1_id, manager2_id,
     manager1_id, admin_id]"
    by (simp only: rev.simps append.simps)
qed

lemmas sample_neq = sample_ids_distinct [simplified]

subsection \<open>Search and role restriction in the two lists\<close>

text \<open>
  For a MANAGER the role-based filtering assigns \<^verbatim>\<open>where.OR\<close>, the key that holds the
  search: whatever the query, the predicate is the one of the query without its search.
\<close>

lemma manager_tasks_where_ignores_search:
  "role u = MANAGER \<Longrightarrow> tasks_where u q d = tasks_where u (q\<lparr>q_search := None\<rparr>) d"
  by (cases "q_search q"; cases "q_labelIds q")
     (simp_all add: tasks_where_def tasks_role_filter_def tasks_requested_filters_def Let_def)

lemma manager_projects_where_ignores_search:
  "role u = MANAGER \<Longrightarrow> projects_where u q d = projects_where u (q\<lparr>pq_search := None\<rparr>) d"
  by (cases "pq_search q")
     (simp_all add: projects_where_def projects_role_filter_def projects_requested_filters_def
           Let_def)
lemma sample_search_homepage:
  "task_cond_holds homepage (Title_contains ''homepage'')"
  "\<not> task_cond_holds report (Title_contains ''homepage'')"
  "\<not> task_cond_holds report (Description_contains ''homepage'')"
  "\<not> task_cond_holds login (Title_contains ''homepage'')"
  "\<not> task_cond_holds login (Description_contains ''homepage'')"
  by code_simp+

lemma sample_search_mobile:
  "\<not> project_cond_holds website (Name_contains ''mobile'')"
  "\<not> project_cond_holds website (Project_description_contains ''mobile'')"
  "project_cond_holds mobile (Name_contains ''mobile'')"
  by code_simp+

lemma sample_owned:
  "userProjects manager2_id sample_db = []"
  "userProjects manager1_id sample_db = [website_id]"
  "userTaskProjects manager1_id sample_db = []"
  by (simp_all add: userProjects_def userTaskProjects_def sample_db_def website_def mobile_def
        homepage_def report_def login_def sample_neq)

text \<open>
  C1 fails on the code. The second manager searches the task list for "homepage": the
  task \<open>report\<close>, which is theirs by the role restriction and matches the search neither
  in its title nor in its description, is returned, because the predicate evaluated holds
  the role disjunction in place of the search disjunction. The administrator's same search
  returns the one task that matches. The project list does the same to the first
  manager's search for "mobile".
\<close>

theorem manager_search_overwritten_by_role_filter:
  "role manager2 = MANAGER \<and>
   where_OR (tasks_requested_filters (search_for ''homepage'')) =
     Some [Title_contains ''homepage'', Description_contains ''homepage''] \<and>
   where_OR (tasks_where manager2 (search_for ''homepage'') sample_db) =
     Some [ProjectId_in [], AssigneeId_equals manager2_id] \<and>
   list_ex (task_cond_holds report) [Title_contains ''homepage'', Description_contains ''homepage'']
     = False \<and>
   map_sum id data (tasks_get (Some manager2) (search_for ''homepage'') sample_db) = Inr [report] \<and>
   map_sum id meta_total (tasks_get (Some manager2) (search_for ''homepage'') sample_db) = Inr 1 \<and>
   map_sum id data (tasks_get (Some admin) (search_for ''homepage'') sample_db) = Inr [homepage] \<and>
   role manager1 = MANAGER \<and>
   list_ex (project_cond_holds website)
     [Name_contains ''mobile'', Project_description_contains ''mobile''] = False \<and>
   map_sum id pdata (projects_get (Some manager1) (project_search_for ''mobile'') sample_db)
     = Inr [website]"
proof -
  have rq: "tasks_requested_filters (search_for ''homepage'') =
              empty_where\<lparr>where_OR := Some [Title_contains ''homepage'', Description_contains ''homepage'']\<rparr>"
    by (simp add: tasks_requested_filters_def search_for_def no_filters_def truthy_def
          present_def Let_def)
  have w2: "tasks_where manager2 (search_for ''homepage'') sample_db =
              empty_where\<lparr>where_OR := Some [ProjectId_in [], AssigneeId_equals manager2_id]\<rparr>"
    by (simp add: tasks_where_def tasks_role_filter_def rq sample_callers sample_owned)
  have wa: "tasks_where admin (search_for ''homepage'') sample_db =
              empty_where\<lparr>where_OR := Some [Title_contains ''homepage'', Description_contains ''homepage'']\<rparr>"
    by (simp add: tasks_where_def tasks_role_filter_def rq sample_callers)
  have f2: "filter (task_matches (empty_where\<lparr>where_OR :=
              Some [ProjectId_in [], AssigneeId_equals manager2_id]\<rparr>)) (tasks sample_db) = [report]"
    by (simp add: task_matches_def empty_where_def sample_db_def)
       (simp add: homepage_def report_def login_def sample_neq)
  have fa: "filter (task_matches (empty_where\<lparr>where_OR :=
              Some [Title_contains ''homepage'', Description_contains ''homepage'']\<rparr>))
              (tasks sample_db) = [homepage]"
    by (simp add: task_matches_def empty_where_def sample_db_def sample_search_homepage
          del: task_cond_holds.simps)
  have v: "taskQuerySchema (search_for ''homepage'')"
    by (simp add: taskQuerySchema_def search_for_def no_filters_def)
  have q: "q_page (search_for ''homepage'') = None" "q_limit (search_for ''homepage'') = None"
    "q_sortBy (search_for ''homepage'') = None" "q_sortOrder (search_for ''homepage'') = None"
    by (simp_all add: search_for_def no_filters_def)
  have g2: "tasks_get (Some manager2) (search_for ''homepage'') sample_db =
              Inr \<lparr>data = [report], meta_page = 1, meta_limit = 10, meta_total = 1,
                    meta_totalPages = totalPages_of 1 10\<rparr>"
    by (simp add: tasks_get_def sample_authenticated v q w2 task_findMany_def task_count_def f2
          page_of_def limit_of_def sortBy_of_def sortOrder_of_def task_orderBy_def Let_def)
  have ga: "tasks_get (Some admin) (search_for ''homepage'') sample_db =
              Inr \<lparr>data = [homepage], meta_page = 1, meta_limit = 10, meta_total = 1,
                    meta_totalPages = totalPages_of 1 10\<rparr>"
    by (simp add: tasks_get_def sample_authenticated v q wa task_findMany_def task_count_def fa
          page_of_def limit_of_def sortBy_of_def sortOrder_of_def task_orderBy_def Let_def)
  have pw: "projects_where manager1 (project_search_for ''mobile'') sample_db =
              \<lparr>pwhere_OR = Some [OwnerId_equals manager1_id, Id_in []],
               pwhere_ownerId = None, pwhere_id_in = None\<rparr>"
    by (simp add: projects_where_def projects_role_filter_def projects_requested_filters_def
          project_search_for_def truthy_def sample_callers sample_owned Let_def)
  have pf: "filter (project_matches \<lparr>pwhere_OR = Some [OwnerId_equals manager1_id, Id_in []],
               pwhere_ownerId = None, pwhere_id_in = None\<rparr>) (projects sample_db) = [website]"
    by (simp add: project_matches_def sample_db_def)
       (simp add: website_def mobile_def sample_neq)
  have pv: "projectQuerySchema (project_search_for ''mobile'')"
    "pq_page (project_search_for ''mobile'') = None"
    "pq_limit (project_search_for ''mobile'') = None"
    by (simp_all add: projectQuerySchema_def project_search_for_def)
  have pg: "projects_get (Some manager1) (project_search_for ''mobile'') sample_db =
              Inr \<lparr>pdata = [website], pmeta_page = 1, pmeta_limit = 10, pmeta_total = 1,
                    pmeta_totalPages = totalPages_of 1 10\<rparr>"
    by (simp add: projects_get_def sample_authenticated pv pw pf Let_def)
  show ?thesis
    by (simp add: rq w2 g2 ga pg sample_callers sample_search_homepage sample_search_mobile
          del: task_cond_holds.simps project_cond_holds.simps)
qed

subsection \<open>Ordering and paging\<close>

lemma mset_task_orderBy: "mset (task_orderBy f ord ts) = mset ts"
  by (cases ord) (simp_all add: task_orderBy_def)

lemma set_task_orderBy: "set (task_orderBy f ord ts) = set ts"
  by (cases ord) (simp_all add: task_orderBy_def)

lemma length_task_orderBy: "length (task_orderBy f ord ts) = length ts"
  by (cases ord) (simp_all add: task_orderBy_def)

text \<open>Pages \<open>0\<close> to \<open>m - 1\<close> of size \<open>n\<close>, one after the other, are the first \<open>m * n\<close> rows.\<close>

lemma concat_pages: "concat (map (\<lambda>k. take n (drop (k * n) xs)) [0..<m]) = take (m * n) xs"
proof (induction m)
  case 0
  show ?case by simp
next
  case (Suc m)
  have "take (Suc m * n) xs = take (m * n) xs @ take n (drop (m * n) xs)"
    by (simp add: take_add [symmetric] add.commute)
  with Suc show ?case by simp
qed

lemma concat_pages_from_1:
  "concat (map (\<lambda>p. take n (drop ((p - 1) * n) xs)) [1..<Suc m]) = take (m * n) xs"
proof -
  have "[1..<Suc m] = map Suc [0..<m]"
    by (simp add: map_Suc_upt)
  then have "map (\<lambda>p. take n (drop ((p - 1) * n) xs)) [1..<Suc m] =
             map (\<lambda>k. take n (drop (k * n) xs)) [0..<m]"
    by (simp add: comp_def)
  then show ?thesis
    by (simp only: concat_pages)
qed

text \<open>Every row is on some page.\<close>

lemma in_some_page:
  assumes "x \<in> set xs" and "0 < n"
  shows "\<exists>k. x \<in> set (take n (drop (k * n) xs))"
proof -
  from assms(1) obtain i where i: "i < length xs" "xs ! i = x"
    by (auto simp: in_set_conv_nth)
  define k where "k = i div n"
  define j where "j = i mod n"
  define ys where "ys = drop (k * n) xs"
  have eq: "k * n + j = i"
    by (simp add: k_def j_def)
  have jn: "j < n"
    using assms(2) by (simp add: j_def)
  have len: "j < length ys"
    using i(1) eq by (simp add: ys_def)
  have "ys ! j = x"
    using i eq by (simp add: ys_def)
  with jn len have "take n ys ! j = x" "j < length (take n ys)"
    by simp_all
  then have "x \<in> set (take n ys)"
    by (auto simp: in_set_conv_nth)
  then show ?thesis
    unfolding ys_def by blast
qed

text \<open>The number of pages is the ceiling of the quotient, and that many pages hold every row.\<close>

lemma totalPages_of_ceiling: "int (totalPages_of n l) = \<lceil>real n / real l\<rceil>"
proof -
  have "0 \<le> real n / real l"
    by simp
  then have "0 \<le> \<lceil>real n / real l\<rceil>"
    by (simp only: zero_le_ceiling)
  then show ?thesis
    by (simp add: totalPages_of_def)
qed

lemma totalPages_covers:
  assumes "0 < l"
  shows "n \<le> totalPages_of n l * l"
proof -
  have "real n / real l \<le> of_int \<lceil>real n / real l\<rceil>"
    by (rule le_of_int_ceiling)
  also have "of_int \<lceil>real n / real l\<rceil> = real (totalPages_of n l)"
    by (simp only: totalPages_of_ceiling [symmetric] of_int_of_nat_eq)
  finally have "real n \<le> real (totalPages_of n l) * real l"
    using assms by (simp add: divide_le_eq)
  then have "real n \<le> real (totalPages_of n l * l)"
    by simp
  then show ?thesis
    by (simp only: of_nat_le_iff)
qed

lemma totalPages_of_div:
  assumes "0 < l"
  shows "totalPages_of n l = (n + l - 1) div l"
proof -
  define m where "m = (n + l - 1) div l"
  have a: "m * l \<le> n + l - 1"
    by (simp add: m_def)
  have b: "n + l - 1 < l + m * l"
    unfolding m_def using assms by (rule dividend_less_div_times)
  from b assms have "n \<le> m * l"
    by linarith
  then have "real n \<le> real (m * l)"
    by (simp only: of_nat_le_iff)
  then have up: "real n / real l \<le> of_int (int m)"
    using assms by (simp add: field_simps)
  from a assms have "m * l < n + l"
    by linarith
  then have "real (m * l) < real (n + l)"
    by (simp only: of_nat_less_iff)
  then have lo: "of_int (int m) - 1 < real n / real l"
    using assms by (simp add: field_simps)
  from lo up have "\<lceil>real n / real l\<rceil> = int m"
    by (rule ceiling_unique)
  then show ?thesis
    by (simp add: totalPages_of_def m_def)
qed

lemma totalPages_of_sample: "totalPages_of 1 10 = 1" "totalPages_of 3 2 = 2"
  by (simp_all add: totalPages_of_div)

subsection \<open>The task list\<close>

lemma limit_of_range: "taskQuerySchema q \<Longrightarrow> 1 \<le> limit_of q \<and> limit_of q \<le> 100"
  by (cases "q_limit q") (auto simp: taskQuerySchema_def limit_of_def)

lemma limit_of_requested:
  "taskQuerySchema q \<Longrightarrow> int (limit_of q) = (case q_limit q of None \<Rightarrow> 10 | Some l \<Rightarrow> l)"
  by (cases "q_limit q") (auto simp: taskQuerySchema_def limit_of_def)

lemma tasks_get_ok:
  assumes "authenticateToken token d = Inr u" and "taskQuerySchema q"
  shows "tasks_get token q d =
           Inr \<lparr>data = task_findMany (tasks_where u q d) (sortBy_of q) (sortOrder_of q)
                          ((page_of q - 1) * limit_of q) (limit_of q) d,
                 meta_page = page_of q, meta_limit = limit_of q,
                 meta_total = task_count (tasks_where u q d) d,
                 meta_totalPages = totalPages_of (task_count (tasks_where u q d) d) (limit_of q)\<rparr>"
  using assms by (simp add: tasks_get_def Let_def)

lemma tasks_get_invalid:
  assumes "authenticateToken token d = Inr u" and "\<not> taskQuerySchema q"
  shows "tasks_get token q d = Inl ValidationError"
  using assms by (simp add: tasks_get_def)

text \<open>Asking for another page changes the page and nothing else.\<close>

lemma other_page:
  "tasks_where u (q\<lparr>q_page := Some p\<rparr>) d = tasks_where u q d"
  "limit_of (q\<lparr>q_page := Some p\<rparr>) = limit_of q"
  "sortBy_of (q\<lparr>q_page := Some p\<rparr>) = sortBy_of q"
  "sortOrder_of (q\<lparr>q_page := Some p\<rparr>) = sortOrder_of q"
  "page_of (q\<lparr>q_page := Some p\<rparr>) = nat p"
  "taskQuerySchema (q\<lparr>q_page := Some p\<rparr>) =
     (1 \<le> p \<and> (case q_limit q of None \<Rightarrow> True | Some l \<Rightarrow> 1 \<le> l \<and> l \<le> 100))"
  by (simp_all add: tasks_where_def tasks_requested_filters_def limit_of_def sortBy_of_def
        sortOrder_of_def page_of_def taskQuerySchema_def Let_def
        split del: if_split cong: option.case_cong if_cong)

lemma tasks_get_page_rows:
  assumes "authenticateToken token d = Inr u" and "taskQuerySchema q" and "1 \<le> p"
  shows "tasks_get_page token q d p =
           take (limit_of q) (drop ((p - 1) * limit_of q)
             (task_orderBy (sortBy_of q) (sortOrder_of q)
                (filter (task_matches (tasks_where u q d)) (tasks d))))"
proof -
  from assms(2,3) have v: "taskQuerySchema (q\<lparr>q_page := Some (int p)\<rparr>)"
    by (simp add: other_page(6) taskQuerySchema_def)
  show ?thesis
    by (simp add: tasks_get_page_def tasks_get_ok [OF assms(1) v] other_page task_findMany_def)
qed

lemma all_pages_rows:
  assumes "authenticateToken token d = Inr u" and "taskQuerySchema q"
    and "length (filter (task_matches (tasks_where u q d)) (tasks d)) \<le> m * limit_of q"
  shows "concat (map (tasks_get_page token q d) [1..<Suc m]) =
           task_orderBy (sortBy_of q) (sortOrder_of q)
             (filter (task_matches (tasks_where u q d)) (tasks d))"
proof -
  let ?ys = "task_orderBy (sortBy_of q) (sortOrder_of q)
               (filter (task_matches (tasks_where u q d)) (tasks d))"
  have "map (tasks_get_page token q d) [1..<Suc m] =
        map (\<lambda>p. take (limit_of q) (drop ((p - 1) * limit_of q) ?ys)) [1..<Suc m]"
  proof (rule map_cong [OF refl])
    fix p
    assume "p \<in> set [1..<Suc m]"
    then have "1 \<le> p"
      by auto
    with assms(1,2) show "tasks_get_page token q d p =
        take (limit_of q) (drop ((p - 1) * limit_of q) ?ys)"
      by (rule tasks_get_page_rows)
  qed
  then have "concat (map (tasks_get_page token q d) [1..<Suc m]) = take (m * limit_of q) ?ys"
    by (simp only: concat_pages_from_1)
  with assms(3) show ?thesis
    by (simp add: length_task_orderBy)
qed

text \<open>
  C8. A task list request is answered only when its page size, if given, lies between 1
  and 100; the size used is the one requested, or 10. The number of pages reported is the
  ceiling of the total over the page size; the total is the count under the very
  predicate the rows are fetched with; and the pages 1 to \<open>totalPages\<close>, one after the
  other, are the rows of that predicate in the requested order, each once, as many as the
  total says.
\<close>

theorem task_list_paging:
  assumes "authenticateToken token d = Inr u"
  shows "(\<not> taskQuerySchema q \<longrightarrow> tasks_get token q d = Inl ValidationError) \<and>
    (\<forall>l. q_limit q = Some l \<and> (l < 1 \<or> 100 < l) \<longrightarrow>
       tasks_get token q d = Inl ValidationError) \<and>
    (taskQuerySchema q \<longrightarrow>
       (\<exists>r. tasks_get token q d = Inr r \<and>
          1 \<le> meta_limit r \<and> meta_limit r \<le> 100 \<and>
          int (meta_limit r) = (case q_limit q of None \<Rightarrow> 10 | Some l \<Rightarrow> l) \<and>
          int (meta_totalPages r) = \<lceil>real (meta_total r) / real (meta_limit r)\<rceil> \<and>
          meta_total r = task_count (tasks_where u q d) d \<and>
          data r = task_findMany (tasks_where u q d) (sortBy_of q) (sortOrder_of q)
                     ((meta_page r - 1) * meta_limit r) (meta_limit r) d \<and>
          concat (map (tasks_get_page token q d) [1..<Suc (meta_totalPages r)]) =
            task_orderBy (sortBy_of q) (sortOrder_of q)
              (filter (task_matches (tasks_where u q d)) (tasks d)) \<and>
          mset (concat (map (tasks_get_page token q d) [1..<Suc (meta_totalPages r)])) =
            filter_mset (task_matches (tasks_where u q d)) (mset (tasks d)) \<and>
          length (concat (map (tasks_get_page token q d) [1..<Suc (meta_totalPages r)])) =
            meta_total r))"
proof (intro conjI impI allI)
  assume "\<not> taskQuerySchema q"
  with assms show "tasks_get token q d = Inl ValidationError"
    by (rule tasks_get_invalid)
next
  fix l
  assume "q_limit q = Some l \<and> (l < 1 \<or> 100 < l)"
  then have "\<not> taskQuerySchema q"
    by (auto simp: taskQuerySchema_def)
  with assms show "tasks_get token q d = Inl ValidationError"
    by (rule tasks_get_invalid)
next
  assume v: "taskQuerySchema q"
  let ?w = "tasks_where u q d"
  let ?n = "task_count ?w d"
  let ?m = "totalPages_of ?n (limit_of q)"
  let ?r = "\<lparr>data = task_findMany ?w (sortBy_of q) (sortOrder_of q)
                        ((page_of q - 1) * limit_of q) (limit_of q) d,
              meta_page = page_of q, meta_limit = limit_of q,
              meta_total = ?n, meta_totalPages = ?m\<rparr>"
  have g: "tasks_get token q d = Inr ?r"
    using assms v by (rule tasks_get_ok)
  have lim: "1 \<le> limit_of q" "limit_of q \<le> 100"
    using limit_of_range [OF v] by simp_all
  have cover: "length (filter (task_matches ?w) (tasks d)) \<le> ?m * limit_of q"
    using totalPages_covers [of "limit_of q" ?n] lim(1) by (simp add: task_count_def)
  note pages = all_pages_rows [OF assms v cover]
  have "1 \<le> meta_limit ?r" "meta_limit ?r \<le> 100"
    using lim by simp_all
  moreover have "int (meta_limit ?r) = (case q_limit q of None \<Rightarrow> 10 | Some l \<Rightarrow> l)"
    using limit_of_requested [OF v] by simp
  moreover have "int (meta_totalPages ?r) = \<lceil>real (meta_total ?r) / real (meta_limit ?r)\<rceil>"
    by (simp add: totalPages_of_ceiling)
  moreover have "meta_total ?r = ?n"
    by simp
  moreover have "data ?r = task_findMany ?w (sortBy_of q) (sortOrder_of q)
                     ((meta_page ?r - 1) * meta_limit ?r) (meta_limit ?r) d"
    by simp
  moreover have "concat (map (tasks_get_page token q d) [1..<Suc (meta_totalPages ?r)]) =
            task_orderBy (sortBy_of q) (sortOrder_of q) (filter (task_matches ?w) (tasks d))"
    using pages by simp
  moreover have "mset (concat (map (tasks_get_page token q d) [1..<Suc (meta_totalPages ?r)])) =
            filter_mset (task_matches ?w) (mset (tasks d))"
    using pages by (simp add: mset_task_orderBy)
  moreover have "length (concat (map (tasks_get_page token q d) [1..<Suc (meta_totalPages ?r)])) =
            meta_total ?r"
    using pages by (simp add: length_task_orderBy task_count_def)
  ultimately show "\<exists>r. tasks_get token q d = Inr r \<and>
          1 \<le> meta_limit r \<and> meta_limit r \<le> 100 \<and>
          int (meta_limit r) = (case q_limit q of None \<Rightarrow> 10 | Some l \<Rightarrow> l) \<and>
          int (meta_totalPages r) = \<lceil>real (meta_total r) / real (meta_limit r)\<rceil> \<and>
          meta_total r = task_count (tasks_where u q d) d \<and>
          data r = task_findMany (tasks_where u q d) (sortBy_of q) (sortOrder_of q)
                     ((meta_page r - 1) * meta_limit r) (meta_limit r) d \<and>
          concat (map (tasks_get_page token q d) [1..<Suc (meta_totalPages r)]) =
            task_orderBy (sortBy_of q) (sortOrder_of q)
              (filter (task_matches (tasks_where u q d)) (tasks d)) \<and>
          mset (concat (map (tasks_get_page token q d) [1..<Suc (meta_totalPages r)])) =
            filter_mset (task_matches (tasks_where u q d)) (mset (tasks d)) \<and>
          length (concat (map (tasks_get_page token q d) [1..<Suc (meta_totalPages r)])) =
            meta_total r"
    using g by blast
qed

lemma sample_unfiltered:
  "tasks_requested_filters no_filters = empty_where"
  "tasks_requested_filters (paged l) = empty_where"
  "taskQuerySchema no_filters"
  "taskQuerySchema (paged l) = (1 \<le> l \<and> l \<le> 100)"
  "limit_of (paged l) = nat l" "limit_of no_filters = 10"
  "page_of (paged l) = 1" "page_of no_filters = 1"
  "sortBy_of (paged l) = CreatedAt" "sortOrder_of (paged l) = Desc"
  "sortBy_of no_filters = CreatedAt" "sortOrder_of no_filters = Desc"
  by (simp_all add: tasks_requested_filters_def taskQuerySchema_def limit_of_def page_of_def
        sortBy_of_def sortOrder_of_def paged_def no_filters_def truthy_def present_def Let_def)

lemma sample_all_tasks:
  "filter (task_matches empty_where) (tasks sample_db) = [homepage, report, login]"
  by (simp add: task_matches_def empty_where_def sample_db_def)

lemma sample_newest_first:
  "task_orderBy CreatedAt Desc [homepage, report, login] = [login, report, homepage]"
  by (simp add: task_orderBy_def task_sort_key_def homepage_def report_def login_def)

theorem task_list_paging_witness:
  "authenticateToken (Some admin) sample_db = Inr admin \<and>
   \<not> taskQuerySchema (paged 101) \<and>
   tasks_get (Some admin) (paged 101) sample_db = Inl ValidationError \<and>
   taskQuerySchema (paged 2) \<and>
   map_sum id meta_total (tasks_get (Some admin) (paged 2) sample_db) = Inr 3 \<and>
   map_sum id meta_totalPages (tasks_get (Some admin) (paged 2) sample_db) = Inr 2 \<and>
   map_sum id data (tasks_get (Some admin) (paged 2) sample_db) = Inr [login, report] \<and>
   tasks_get_page (Some admin) (paged 2) sample_db 2 = [homepage] \<and>
   concat (map (tasks_get_page (Some admin) (paged 2) sample_db) [1..<Suc 2]) =
     [login, report, homepage]"
proof -
  note a = sample_authenticated(1)
  note th = task_list_paging [OF a]
  have w: "tasks_where admin (paged 2) sample_db = empty_where"
    by (simp add: tasks_where_def tasks_role_filter_def sample_unfiltered sample_callers)
  have v: "taskQuerySchema (paged 2)" "\<not> taskQuerySchema (paged 101)"
    by (simp_all add: sample_unfiltered)
  have n: "task_count empty_where sample_db = 3"
    by (simp add: task_count_def sample_all_tasks)
  have g: "tasks_get (Some admin) (paged 2) sample_db =
             Inr \<lparr>data = [login, report], meta_page = 1, meta_limit = 2, meta_total = 3,
                   meta_totalPages = 2\<rparr>"
    by (simp add: tasks_get_ok [OF a v(1)] w n sample_unfiltered task_findMany_def
          sample_all_tasks sample_newest_first totalPages_of_div)
  have p2: "tasks_get_page (Some admin) (paged 2) sample_db 2 = [homepage]"
    by (simp add: tasks_get_page_rows [OF a v(1)] w sample_unfiltered sample_all_tasks
          sample_newest_first)
  from th [of "paged 101"] v(2)
  have rej: "tasks_get (Some admin) (paged 101) sample_db = Inl ValidationError"
    by blast
  from th [of "paged 2"] v(1) obtain r where
    r: "tasks_get (Some admin) (paged 2) sample_db = Inr r" and
    cc: "concat (map (tasks_get_page (Some admin) (paged 2) sample_db)
           [1..<Suc (meta_totalPages r)]) =
          task_orderBy (sortBy_of (paged 2)) (sortOrder_of (paged 2))
            (filter (task_matches (tasks_where admin (paged 2) sample_db)) (tasks sample_db))"
    by blast
  from r g have "meta_totalPages r = 2"
    by auto
  with cc
  have "concat (map (tasks_get_page (Some admin) (paged 2) sample_db) [1..<Suc 2]) =
          task_orderBy (sortBy_of (paged 2)) (sortOrder_of (paged 2))
            (filter (task_matches (tasks_where admin (paged 2) sample_db)) (tasks sample_db))"
    by (simp only:)
  then have c: "concat (map (tasks_get_page (Some admin) (paged 2) sample_db) [1..<Suc 2]) =
          [login, report, homepage]"
    by (simp only: w sample_unfiltered sample_all_tasks sample_newest_first)
  from a v g p2 rej c show ?thesis
    by simp
qed

subsection \<open>The dashboard\<close>

lemma stats_taskWhere_role_filter: "stats_taskWhere u d = tasks_role_filter u d empty_where"
  by (simp add: stats_taskWhere_def tasks_role_filter_def)

text \<open>
  C3. For an authenticated caller of any role and a task list request whose requested
  filters contribute nothing, the dashboard builds the very predicate the task list
  builds, both requests are answered, and \<open>totalTasks\<close> equals the total the list
  reports: the number of stored tasks that predicate selects.
\<close>

theorem dashboard_totalTasks_is_list_total:
  assumes "authenticateToken token d = Inr u"
    and "taskQuerySchema q"
    and "tasks_requested_filters q = empty_where"
  shows "stats_taskWhere u d = tasks_where u q d \<and>
         (\<exists>s r. dashboard_get_stats token now d = Inr s \<and> tasks_get token q d = Inr r \<and>
                totalTasks s = meta_total r \<and>
                meta_total r = length (filter (task_matches (tasks_where u q d)) (tasks d)))"
proof -
  have w: "stats_taskWhere u d = tasks_where u q d"
    by (simp add: stats_taskWhere_role_filter tasks_where_def assms(3))
  have "\<exists>s. dashboard_get_stats token now d = Inr s \<and>
             totalTasks s = task_count (tasks_where u q d) d"
    by (simp add: dashboard_get_stats_def assms(1) w Let_def)
  moreover have "\<exists>r. tasks_get token q d = Inr r \<and>
             meta_total r = task_count (tasks_where u q d) d"
    by (simp add: tasks_get_ok [OF assms(1,2)])
  ultimately show ?thesis
    using w by (auto simp: task_count_def)
qed

theorem dashboard_totalTasks_is_list_total_witness:
  "authenticateToken (Some manager2) sample_db = Inr manager2 \<and>
   role manager2 = MANAGER \<and>
   taskQuerySchema no_filters \<and>
   tasks_requested_filters no_filters = empty_where \<and>
   stats_taskWhere manager2 sample_db = tasks_where manager2 no_filters sample_db \<and>
   map_sum id meta_total (tasks_get (Some manager2) no_filters sample_db) = Inr 1 \<and>
   map_sum id totalTasks (dashboard_get_stats (Some manager2) 7000 sample_db) = Inr 1"
proof -
  note a = sample_authenticated(3)
  note th = dashboard_totalTasks_is_list_total [OF a sample_unfiltered(3) sample_unfiltered(1),
              of 7000]
  have w: "tasks_where manager2 no_filters sample_db =
             empty_where\<lparr>where_OR := Some [ProjectId_in [], AssigneeId_equals manager2_id]\<rparr>"
    by (simp add: tasks_where_def tasks_role_filter_def sample_unfiltered sample_callers
          sample_owned)
  have f: "filter (task_matches (empty_where\<lparr>where_OR :=
              Some [ProjectId_in [], AssigneeId_equals manager2_id]\<rparr>)) (tasks sample_db) = [report]"
    by (simp add: task_matches_def empty_where_def sample_db_def)
       (simp add: homepage_def report_def login_def sample_neq)
  from th obtain s r where
    s: "dashboard_get_stats (Some manager2) 7000 sample_db = Inr s" and
    r: "tasks_get (Some manager2) no_filters sample_db = Inr r" and
    e: "totalTasks s = meta_total r" and
    n: "meta_total r = length (filter (task_matches (tasks_where manager2 no_filters sample_db))
                                  (tasks sample_db))"
    by blast
  from n have "meta_total r = 1"
    by (simp add: w f)
  with s r e th show ?thesis
    by (simp add: a sample_callers sample_unfiltered)
qed

subsection \<open>The task list of a MEMBER\<close>

text \<open>
  C2. For a MEMBER caller and a request without filters, a stored task is among the rows
  of the list (on one of its pages) exactly when the caller is its assignee; every page
  holds assigned tasks only, the total is the number of assigned tasks, and when the
  first page is asked for and the total fits its size, that page alone holds them all.
\<close>

theorem member_task_list_scope:
  assumes "authenticateToken token d = Inr u"
    and "role u = MEMBER"
    and "taskQuerySchema q"
    and "tasks_requested_filters q = empty_where"
    and "T \<in> set (tasks d)"
  shows "((\<exists>p. 1 \<le> p \<and> T \<in> set (tasks_get_page token q d p)) \<longleftrightarrow>
            task_assigneeId T = Some (userId u)) \<and>
         (\<exists>r. tasks_get token q d = Inr r \<and>
              (\<forall>t \<in> set (data r). task_assigneeId t = Some (userId u)) \<and>
              meta_total r =
                length (filter (\<lambda>t. task_assigneeId t = Some (userId u)) (tasks d)) \<and>
              (meta_page r = 1 \<and> meta_total r \<le> meta_limit r \<longrightarrow>
                 (T \<in> set (data r) \<longleftrightarrow> task_assigneeId T = Some (userId u))))"
proof -
  let ?mine = "\<lambda>t. task_assigneeId t = Some (userId u)"
  have w: "tasks_where u q d = empty_where\<lparr>where_assigneeId := Some (userId u)\<rparr>"
    by (simp add: tasks_where_def tasks_role_filter_def assms(2,4))
  have m: "task_matches (tasks_where u q d) = ?mine"
    by (rule ext) (simp add: w task_matches_def empty_where_def)
  let ?ys = "task_orderBy (sortBy_of q) (sortOrder_of q) (filter ?mine (tasks d))"
  have ys: "set ?ys = {t \<in> set (tasks d). ?mine t}"
    by (simp add: set_task_orderBy)
  have lim: "0 < limit_of q"
    using limit_of_range [OF assms(3)] by simp
  have page: "tasks_get_page token q d p = take (limit_of q) (drop ((p - 1) * limit_of q) ?ys)"
    if "1 \<le> p" for p
    using tasks_get_page_rows [OF assms(1,3) that] by (simp add: m)
  have one: "(\<exists>p. 1 \<le> p \<and> T \<in> set (tasks_get_page token q d p)) \<longleftrightarrow> ?mine T"
  proof
    assume "\<exists>p. 1 \<le> p \<and> T \<in> set (tasks_get_page token q d p)"
    then obtain p where "1 \<le> p" "T \<in> set (tasks_get_page token q d p)"
      by blast
    then have "T \<in> set ?ys"
      by (auto simp: page dest: in_set_takeD in_set_dropD)
    then show "?mine T"
      by (simp add: ys)
  next
    assume "?mine T"
    with assms(5) have "T \<in> set ?ys"
      by (simp add: ys)
    from in_some_page [OF this lim] obtain k where
      "T \<in> set (take (limit_of q) (drop (k * limit_of q) ?ys))"
      by blast
    then have "T \<in> set (tasks_get_page token q d (Suc k))"
      by (simp add: page)
    then show "\<exists>p. 1 \<le> p \<and> T \<in> set (tasks_get_page token q d p)"
      by (intro exI [of _ "Suc k"]) simp
  qed
  let ?r = "\<lparr>data = task_findMany (tasks_where u q d) (sortBy_of q) (sortOrder_of q)
                        ((page_of q - 1) * limit_of q) (limit_of q) d,
              meta_page = page_of q, meta_limit = limit_of q,
              meta_total = task_count (tasks_where u q d) d,
              meta_totalPages = totalPages_of (task_count (tasks_where u q d) d) (limit_of q)\<rparr>"
  have g: "tasks_get token q d = Inr ?r"
    using assms(1,3) by (rule tasks_get_ok)
  have d: "data ?r = take (limit_of q) (drop ((page_of q - 1) * limit_of q) ?ys)"
    by (simp add: task_findMany_def m)
  have only: "\<forall>t \<in> set (data ?r). ?mine t"
  proof
    fix t
    assume "t \<in> set (data ?r)"
    then have "t \<in> set ?ys"
      unfolding d by (auto dest: in_set_takeD in_set_dropD)
    then show "?mine t"
      by (simp add: ys)
  qed
  have n: "meta_total ?r = length (filter ?mine (tasks d))"
    by (simp add: task_count_def m)
  have fits: "T \<in> set (data ?r) \<longleftrightarrow> ?mine T"
    if "meta_page ?r = 1 \<and> meta_total ?r \<le> meta_limit ?r"
  proof -
    from that have "page_of q = 1" "length ?ys \<le> limit_of q"
      by (simp_all add: task_count_def m length_task_orderBy)
    then have "data ?r = ?ys"
      unfolding d by simp
    with assms(5) show ?thesis
      by (simp add: ys)
  qed
  from g only n fits have
    "\<exists>r. tasks_get token q d = Inr r \<and>
        (\<forall>t \<in> set (data r). ?mine t) \<and>
        meta_total r = length (filter ?mine (tasks d)) \<and>
        (meta_page r = 1 \<and> meta_total r \<le> meta_limit r \<longrightarrow> (T \<in> set (data r) \<longleftrightarrow> ?mine T))"
    by blast
  with one show ?thesis
    by blast
qed

theorem member_task_list_scope_witness:
  "authenticateToken (Some member1) sample_db = Inr member1 \<and>
   role member1 = MEMBER \<and>
   taskQuerySchema no_filters \<and>
   tasks_requested_filters no_filters = empty_where \<and>
   homepage \<in> set (tasks sample_db) \<and>
   task_assigneeId homepage = Some (userId member1) \<and>
   (\<exists>p. 1 \<le> p \<and> homepage \<in> set (tasks_get_page (Some member1) no_filters sample_db p)) \<and>
   report \<in> set (tasks sample_db) \<and>
   task_assigneeId report \<noteq> Some (userId member1) \<and>
   \<not> (\<exists>p. 1 \<le> p \<and> report \<in> set (tasks_get_page (Some member1) no_filters sample_db p)) \<and>
   map_sum id data (tasks_get (Some member1) no_filters sample_db) = Inr [homepage]"
proof -
  note a = sample_authenticated(4)
  note th = member_task_list_scope [OF a sample_callers(7) sample_unfiltered(3)
              sample_unfiltered(1)]
  have h: "homepage \<in> set (tasks sample_db)" "report \<in> set (tasks sample_db)"
    by (simp_all add: sample_db_def)
  have mine: "task_assigneeId homepage = Some (userId member1)"
    by (simp add: homepage_def sample_callers)
  have other: "task_assigneeId report \<noteq> Some (userId member1)"
    by (simp add: report_def sample_callers sample_neq)
  from th [OF h(1)] mine
  have yes: "\<exists>p. 1 \<le> p \<and> homepage \<in> set (tasks_get_page (Some member1) no_filters sample_db p)"
    by blast
  from th [OF h(2)] other
  have no: "\<not> (\<exists>p. 1 \<le> p \<and> report \<in> set (tasks_get_page (Some member1) no_filters sample_db p))"
    by blast
  have w: "tasks_where member1 no_filters sample_db =
             empty_where\<lparr>where_assigneeId := Some member1_id\<rparr>"
    by (simp add: tasks_where_def tasks_role_filter_def sample_unfiltered sample_callers)
  have f: "filter (task_matches (empty_where\<lparr>where_assigneeId := Some member1_id\<rparr>))
             (tasks sample_db) = [homepage]"
    by (simp add: task_matches_def empty_where_def sample_db_def)
       (simp add: homepage_def report_def login_def sample_neq)
  have g: "map_sum id data (tasks_get (Some member1) no_filters sample_db) = Inr [homepage]"
    by (simp add: tasks_get_ok [OF a sample_unfiltered(3)] w f sample_unfiltered
          task_findMany_def task_orderBy_def)
  from a h mine other yes no g show ?thesis
    by (simp add: sample_callers sample_unfiltered)
qed

end
